theory Spec2Isabelle
  imports Main "HOL-Library.Word" "HOL-Library.Sublist"
begin

section \<open>The Livebox client: data model\<close>

text \<open>
  Go's \<^verbatim>\<open>int\<close> on the 64-bit targets the provider is built for: a 64-bit two's
  complement value. \<open>+\<close> and \<open>-\<close> wrap around, comparisons read the value with \<open>sint\<close>.
\<close>

type_synonym go_int = "64 word"

text \<open>
  Go errors are values. \<open>ErrorString\<close> is what \<^verbatim>\<open>errors.New\<close> and a \<^verbatim>\<open>fmt.Errorf\<close>
  without \<^verbatim>\<open>%w\<close> build (the message), \<open>Wrapped ctx e\<close> is
  \<^verbatim>\<open>fmt.Errorf("ctx: %w", e)\<close>, \<open>NumError fn input reason\<close> is \<^verbatim>\<open>strconv.NumError\<close>, and
  \<open>External\<close> is an error produced by a library the client calls (encoding/json,
  net/http, net/url).
\<close>

datatype error =
    ErrorString string
  | Wrapped string error
  | NumError string string string
  | External string

subsection \<open>strconv and strings\<close>

text \<open>
  \<^verbatim>\<open>strconv.Itoa\<close>: \<^verbatim>\<open>FormatInt(int64(i), 10)\<close>. The magnitude is written in decimal
  without leading zeros, most significant digit first; a negative value gets a leading
  minus sign.
\<close>

definition digit :: "nat \<Rightarrow> char" where
  "digit d = ''0123456789'' ! d"

fun formatBits :: "nat \<Rightarrow> string" where
  "formatBits u = (if u < 10 then [digit u] else formatBits (u div 10) @ [digit (u mod 10)])"

declare formatBits.simps [simp del]

definition Itoa :: "go_int \<Rightarrow> string" where
  "Itoa i = (if sint i < 0 then CHR ''-'' # formatBits (nat (- sint i))
             else formatBits (nat (sint i)))"

text \<open>
  \<^verbatim>\<open>strconv.Atoi\<close>: an optional sign, then at least one decimal digit and nothing else
  (base 10 is given, so no underscores and no prefixes). \<open>parseUint\<close> is the loop of
  \<^verbatim>\<open>strconv.ParseUint\<close> over the bytes after the sign, from the left: a byte that is not a
  digit is a syntax error, a value that no longer fits 64 unsigned bits is a range
  error, whichever comes first. A value that fits but lies outside the range of \<^verbatim>\<open>int\<close>
  is a range error too.
\<close>

definition isDigit :: "char \<Rightarrow> bool" where
  "isDigit c = (c \<in> set ''0123456789'')"

definition digitVal :: "char \<Rightarrow> nat" where
  "digitVal c = (of_char c :: nat) - 48"

fun parseUint :: "nat \<Rightarrow> string \<Rightarrow> string + nat" where
  "parseUint n [] = Inr n"
| "parseUint n (c # cs) =
     (if \<not> isDigit c then Inl ''invalid syntax''
      else if 2 ^ 64 - 1 < n * 10 + digitVal c then Inl ''value out of range''
      else parseUint (n * 10 + digitVal c) cs)"

definition Atoi :: "string \<Rightarrow> error + go_int" where
  "Atoi s =
     (let neg = (s \<noteq> [] \<and> hd s = CHR ''-'');
          ds = (if s \<noteq> [] \<and> (hd s = CHR ''-'' \<or> hd s = CHR ''+'') then tl s else s)
      in if ds = [] then Inl (NumError ''Atoi'' s ''invalid syntax'')
         else (case parseUint 0 ds of
                 Inl reason \<Rightarrow> Inl (NumError ''Atoi'' s reason)
               | Inr u \<Rightarrow>
                   let v = (if neg then - int u else int u)
                   in if v < - (2 ^ 63) \<or> 2 ^ 63 - 1 < v
                      then Inl (NumError ''Atoi'' s ''value out of range'')
                      else Inr (word_of_int v)))"

text \<open>
  \<^verbatim>\<open>strings.SplitN(s, sep, 2)\<close> for a one-byte separator: the text before the first
  separator and the whole remainder after it, or the text alone when it has no separator.
\<close>

definition SplitN2 :: "string \<Rightarrow> char \<Rightarrow> string list" where
  "SplitN2 s sep =
     (if sep \<in> set s
      then [takeWhile (\<lambda>c. c \<noteq> sep) s, tl (dropWhile (\<lambda>c. c \<noteq> sep) s)]
      else [s])"

text \<open>\<^verbatim>\<open>strings.TrimPrefix\<close>.\<close>

definition TrimPrefix :: "string \<Rightarrow> string \<Rightarrow> string" where
  "TrimPrefix s p = (if prefix p s then drop (length p) s else s)"

subsection \<open>Protocol codec (protocol.go)\<close>

text \<open>\<^verbatim>\<open>type Protocol string\<close>: any string is a value of the type; four are named.\<close>

type_synonym Protocol = string

definition ProtocolUnknown :: Protocol where "ProtocolUnknown = ''unknown''"
definition ProtocolTCP :: Protocol where "ProtocolTCP = ''tcp''"
definition ProtocolUDP :: Protocol where "ProtocolUDP = ''udp''"
definition ProtocolTCPUDP :: Protocol where "ProtocolTCPUDP = ''tcp/udp''"

definition intString :: "Protocol \<Rightarrow> string" where
  "intString p =
     (if p = ProtocolTCP then ''6''
      else if p = ProtocolUDP then ''17''
      else if p = ProtocolTCPUDP then ''6,17''
      else '''')"

definition parseProtocol :: "string \<Rightarrow> Protocol" where
  "parseProtocol p =
     (if p = ''6'' then ProtocolTCP
      else if p = ''17'' then ProtocolUDP
      else if p = ''6,17'' then ProtocolTCPUDP
      else ProtocolUnknown)"

subsection \<open>Port-range codec (port\_forwarding.go)\<close>

definition parsePortRange :: "string \<Rightarrow> error + (go_int \<times> go_int)" where
  "parsePortRange port =
     (let parts = SplitN2 port CHR ''-'' in
      case Atoi (parts ! 0) of
        Inl err \<Rightarrow> Inl (Wrapped ''parse external port'' err)
      | Inr externalPortStart \<Rightarrow>
          if length parts = 1 then Inr (externalPortStart, 0)
          else (case Atoi (parts ! 1) of
                  Inl err \<Rightarrow> Inl (Wrapped ''parse external port range'' err)
                | Inr externalPortEnd \<Rightarrow>
                    Inr (externalPortStart, externalPortEnd - externalPortStart)))"

definition formatPortRange :: "go_int \<Rightarrow> go_int \<Rightarrow> string" where
  "formatPortRange port portRange =
     (if portRange = 0 \<or> portRange = 1 then Itoa port
      else Itoa port @ ''-'' @ Itoa (port + portRange))"

subsection \<open>HTTP messages\<close>

text \<open>
  \<^verbatim>\<open>http.Header\<close> is a map from a canonical field name to the list of its values.
  \<open>Header_Get\<close> returns the first value of a field, or the empty string;
  \<open>Header_Set\<close> replaces the values of a field by one value.
\<close>

type_synonym Header = "string \<rightharpoonup> string list"

definition Header_Get :: "Header \<Rightarrow> string \<Rightarrow> string" where
  "Header_Get h key = (case h key of Some (v # vs) \<Rightarrow> v | _ \<Rightarrow> [])"

definition Header_Set :: "Header \<Rightarrow> string \<Rightarrow> string \<Rightarrow> Header" where
  "Header_Set h key v = h(key \<mapsto> [v])"

record Request =
  req_Method :: string
  req_URL :: string
  req_Header :: Header
  req_Body :: string

record Response =
  StatusCode :: int
  resp_Header :: Header
  resp_Body :: string

subsection \<open>Cookie-name transport shim\<close>

text \<open>
  \<^verbatim>\<open>strings.Contains\<close> and \<^verbatim>\<open>strings.ReplaceAll\<close>. The replacement scans from the left
  and replaces non-overlapping occurrences. Both call sites pass a fixed non-empty name as
  \<open>old\<close>; Go's insertion between runes for an empty \<open>old\<close> is not modelled.
\<close>

fun Contains :: "string \<Rightarrow> string \<Rightarrow> bool" where
  "Contains [] substr = (substr = [])"
| "Contains (c # cs) substr = (prefix substr (c # cs) \<or> Contains cs substr)"

fun ReplaceAll :: "string \<Rightarrow> string \<Rightarrow> string \<Rightarrow> string" where
  "ReplaceAll [] old new = []"
| "ReplaceAll (c # cs) old new =
     (if old \<noteq> [] \<and> prefix old (c # cs)
      then new @ ReplaceAll (drop (length old) (c # cs)) old new
      else c # ReplaceAll cs old new)"

definition realCookieName :: string where "realCookieName = ''/sessid''"
definition patchedCookieName :: string where "patchedCookieName = ''-sessid''"

text \<open>
  The assignment \<^verbatim>\<open>h[key][0] = strings.ReplaceAll(h[key][0], old, new)\<close>. Index 0 of a
  missing or empty entry would panic in Go; both uses are guarded by \<open>Contains\<close> of the
  first value, which is false for the empty string \<open>Header_Get\<close> returns there.
\<close>

definition replaceFirstValue :: "Header \<Rightarrow> string \<Rightarrow> string \<Rightarrow> string \<Rightarrow> Header" where
  "replaceFirstValue h key old new =
     (case h key of Some (v # vs) \<Rightarrow> h(key \<mapsto> ReplaceAll v old new # vs) | _ \<Rightarrow> h)"

text \<open>The block of \<open>RoundTrip\<close> before the request is handed to the wrapped transport.\<close>

definition patchRequest :: "Request \<Rightarrow> Request" where
  "patchRequest req =
     (if Contains (Header_Get (req_Header req) ''Cookie'') patchedCookieName
      then req\<lparr>req_Header :=
             replaceFirstValue (req_Header req) ''Cookie'' patchedCookieName realCookieName\<rparr>
      else req)"

text \<open>The block of \<open>RoundTrip\<close> after the wrapped transport has returned a response.\<close>

definition patchResponse :: "Response \<Rightarrow> Response" where
  "patchResponse resp =
     (if Contains (Header_Get (resp_Header resp) ''Set-Cookie'') realCookieName
      then resp\<lparr>resp_Header :=
             replaceFirstValue (resp_Header resp) ''Set-Cookie'' realCookieName patchedCookieName\<rparr>
      else resp)"

text \<open>\<open>cookieNamePatcher.RoundTrip\<close>; the wrapped \<^verbatim>\<open>http.Transport\<close> is the parameter.\<close>

definition RoundTrip :: "(Request \<Rightarrow> error + Response) \<Rightarrow> Request \<Rightarrow> error + Response" where
  "RoundTrip transport req =
     (case transport (patchRequest req) of
        Inl err \<Rightarrow> Inl err
      | Inr resp \<Rightarrow> Inr (patchResponse resp))"

subsection \<open>Request executor (request.go)\<close>

text \<open>A value of \<^verbatim>\<open>map[string]any\<close> as the client builds it: a string, an int or a bool.\<close>

datatype any = AString string | AInt go_int | ABool bool

record apiRequest =
  Method :: string
  Service :: string
  Parameters :: "string \<rightharpoonup> any"

text \<open>Both fields are \<^verbatim>\<open>json.RawMessage\<close>: the bytes of the field, empty when it is absent.\<close>

record apiResponse =
  Status :: string
  Errors :: string

record getPortForwardingResp =
  raw_ID :: string
  raw_Origin :: string
  raw_Description :: string
  raw_Status :: string
  raw_SourceInterface :: string
  raw_Protocol :: string
  raw_ExternalPort :: string
  raw_InternalPort :: string
  raw_SourcePrefix :: string
  raw_DestinationIPAddress :: string
  raw_DestinationMACAddress :: string
  raw_LeaseDuration :: go_int
  raw_HairpinNAT :: bool
  raw_SymmetricSNAT :: bool
  raw_UPnPV1Compat :: bool
  raw_Enable :: bool

text \<open>
  The library calls whose results the client only inspects, as parameters:
  \<^item> \<open>json_Marshal\<close>: \<^verbatim>\<open>json.Marshal\<close> of a request envelope;
  \<^item> \<open>url_Parse\<close>: the error of \<^verbatim>\<open>http.NewRequest\<close>, which for the constant method POST and a
    reader body is the error of parsing the URL;
  \<^item> \<open>decode_apiResponse\<close>, \<open>decode_loginResponse\<close>: \<^verbatim>\<open>json.Decoder.Decode\<close> of a response
    body into the response envelope, and into the login structure (giving
    \<^verbatim>\<open>data.contextID\<close>);
  \<^item> \<open>Unmarshal_getPortForwarding\<close>: \<^verbatim>\<open>json.Unmarshal\<close> into
    \<^verbatim>\<open>map[string]getPortForwardingResp\<close>, as the entries in the order the \<^verbatim>\<open>range\<close> loop
    visits them;
  \<^item> \<open>net_ParseIP\<close>: whether \<^verbatim>\<open>net.ParseIP\<close> returns a non-nil address.
\<close>

record stdlib =
  json_Marshal :: "apiRequest \<Rightarrow> error + string"
  url_Parse :: "string \<Rightarrow> error option"
  decode_apiResponse :: "string \<Rightarrow> error + apiResponse"
  decode_loginResponse :: "string \<Rightarrow> error + string"
  Unmarshal_getPortForwarding :: "string \<Rightarrow> error + (string \<times> getPortForwardingResp) list"
  net_ParseIP :: "string \<Rightarrow> bool"

definition http_NewRequest :: "stdlib \<Rightarrow> string \<Rightarrow> string \<Rightarrow> string \<Rightarrow> error + Request" where
  "http_NewRequest lib method url body =
     (case url_Parse lib url of
        Some err \<Rightarrow> Inl err
      | None \<Rightarrow> Inr \<lparr>req_Method = method, req_URL = url, req_Header = Map.empty, req_Body = body\<rparr>)"

text \<open>
  \<^verbatim>\<open>http.Client\<close> with what is behind it: the requests issued so far, oldest first, and
  the answer of the network to a request after a given history. \<open>Do\<close> issues one request.
\<close>

record http_Client =
  issued :: "Request list"
  answer :: "Request list \<Rightarrow> Request \<Rightarrow> error + Response"

definition Do :: "http_Client \<Rightarrow> Request \<Rightarrow> (error + Response) \<times> http_Client" where
  "Do hc req = (answer hc (issued hc) req, hc\<lparr>issued := issued hc @ [req]\<rparr>)"

record Client =
  host :: string
  token :: string
  httpClient :: http_Client

definition doReq :: "stdlib \<Rightarrow> Client \<Rightarrow> apiRequest \<Rightarrow> (error + string) \<times> Client" where
  "doReq lib c r =
     (case json_Marshal lib r of
        Inl err \<Rightarrow> (Inl err, c)
      | Inr b \<Rightarrow>
          (case http_NewRequest lib ''POST'' (host c @ ''/ws'') b of
             Inl err \<Rightarrow> (Inl err, c)
           | Inr req0 \<Rightarrow>
               let req1 = req0\<lparr>req_Header :=
                            Header_Set (req_Header req0) ''Authorization'' (''X-Sah '' @ token c)\<rparr>;
                   req = req1\<lparr>req_Header :=
                           Header_Set (req_Header req1) ''Content-Type''
                             ''application/x-sah-ws-4-call+json''\<rparr>;
                   (res, hc) = Do (httpClient c) req;
                   c' = c\<lparr>httpClient := hc\<rparr>
               in case res of
                    Inl err \<Rightarrow> (Inl err, c')
                  | Inr resp \<Rightarrow>
                      (case decode_apiResponse lib (resp_Body resp) of
                         Inl err \<Rightarrow> (Inl err, c')
                       | Inr apiResp \<Rightarrow>
                           if length (Errors apiResp) > 0
                           then (Inl (ErrorString (''api error: '' @ Errors apiResp)), c')
                           else (Inr (Status apiResp), c'))))"

definition doAuthReq :: "stdlib \<Rightarrow> Client \<Rightarrow> apiRequest \<Rightarrow> (error + Response) \<times> Client" where
  "doAuthReq lib c r =
     (case json_Marshal lib r of
        Inl err \<Rightarrow> (Inl err, c)
      | Inr b \<Rightarrow>
          (case http_NewRequest lib ''POST'' (host c @ ''/ws'') b of
             Inl err \<Rightarrow> (Inl err, c)
           | Inr req0 \<Rightarrow>
               let req1 = req0\<lparr>req_Header :=
                            Header_Set (req_Header req0) ''Authorization'' ''X-Sah-Login''\<rparr>;
                   req = req1\<lparr>req_Header :=
                           Header_Set (req_Header req1) ''Content-Type''
                             ''application/x-sah-ws-4-call+json''\<rparr>;
                   (res, hc) = Do (httpClient c) req;
                   c' = c\<lparr>httpClient := hc\<rparr>
               in case res of
                    Inl err \<Rightarrow> (Inl err, c')
                  | Inr resp \<Rightarrow> (Inr resp, c')))"

subsection \<open>Session manager (client.go)\<close>

text \<open>\<open>login\<close> returns its error (\<open>None\<close> is \<^verbatim>\<open>nil\<close>) and the client as it leaves it.\<close>

definition login :: "stdlib \<Rightarrow> Client \<Rightarrow> string \<Rightarrow> error option \<times> Client" where
  "login lib c password =
     (let payload = \<lparr>Method = ''createContext'', Service = ''sah.Device.Information'',
                      Parameters = [''applicationName'' \<mapsto> AString ''webui'',
                                    ''username'' \<mapsto> AString ''admin'',
                                    ''password'' \<mapsto> AString password]\<rparr>;
          (res, c') = doAuthReq lib c payload
      in case res of
           Inl err \<Rightarrow> (Some err, c')
         | Inr resp \<Rightarrow>
             (case decode_loginResponse lib (resp_Body resp) of
                Inl err \<Rightarrow> (Some err, c')
              | Inr contextID \<Rightarrow> (None, c'\<lparr>token := contextID\<rparr>)))"

text \<open>
  \<open>NewClient\<close>. \<^verbatim>\<open>cookiejar.New(nil)\<close> never fails; the HTTP client the function builds
  (the jar, and the shim around the transport) is the parameter \<open>hc\<close>.
\<close>

definition NewClient :: "stdlib \<Rightarrow> http_Client \<Rightarrow> string \<Rightarrow> string \<Rightarrow> error + Client" where
  "NewClient lib hc h password =
     (let c = \<lparr>host = h, token = [], httpClient = hc\<rparr>
      in case login lib c password of
           (Some err, c') \<Rightarrow> Inl err
         | (None, c') \<Rightarrow> Inr c')"

subsection \<open>Port forwarding service (port\_forwarding.go)\<close>

record PortForwarding =
  pf_Name :: string
  pf_Protocol :: Protocol
  pf_ExternalPort :: go_int
  pf_InternalPort :: go_int
  pf_PortRange :: go_int
  pf_Destination :: string
  pf_Enabled :: bool

record PortForwardingConfig =
  Name :: string
  ExternalPort :: go_int
  InternalPort :: go_int
  PortRange :: go_int
  Protocol :: Protocol
  Destination :: string
  Enabled :: bool

text \<open>The body of the \<^verbatim>\<open>range\<close> loop of \<open>ListPortForwardings\<close>, over the entries left.\<close>

fun listLoop ::
  "(string \<times> getPortForwardingResp) list \<Rightarrow> PortForwarding list \<Rightarrow> error + PortForwarding list"
where
  "listLoop [] out = Inr out"
| "listLoop ((ident, raw) # rest) out =
     (case parsePortRange (raw_ExternalPort raw) of
        Inl err \<Rightarrow> Inl (Wrapped ''parse port range'' err)
      | Inr (externalPort, portRange) \<Rightarrow>
          (case Atoi (raw_InternalPort raw) of
             Inl err \<Rightarrow> Inl (Wrapped ''parse internal port'' err)
           | Inr internalPort \<Rightarrow>
               listLoop rest
                 (out @ [\<lparr>pf_Name = TrimPrefix ident ''webui_'',
                          pf_Protocol = parseProtocol (raw_Protocol raw),
                          pf_ExternalPort = externalPort,
                          pf_InternalPort = internalPort,
                          pf_PortRange = portRange,
                          pf_Destination = raw_DestinationIPAddress raw,
                          pf_Enabled = raw_Enable raw\<rparr>])))"

definition ListPortForwardings :: "stdlib \<Rightarrow> Client \<Rightarrow> (error + PortForwarding list) \<times> Client" where
  "ListPortForwardings lib c =
     (let payload = \<lparr>Method = ''getPortForwarding'', Service = ''Firewall'',
                      Parameters = [''origin'' \<mapsto> AString ''webui'']\<rparr>;
          (res, c') = doReq lib c payload
      in case res of
           Inl err \<Rightarrow> (Inl (Wrapped ''do request'' err), c')
         | Inr data \<Rightarrow>
             (case Unmarshal_getPortForwarding lib data of
                Inl err \<Rightarrow> (Inl (Wrapped ''unmarshal data'' err), c')
              | Inr pfr \<Rightarrow> (listLoop pfr [], c')))"

definition validate :: "stdlib \<Rightarrow> PortForwardingConfig \<Rightarrow> error option" where
  \<open>validate lib c =
     (if Name c = [] then Some (ErrorString ''empty name'')
      else if sint (ExternalPort c) < 1 \<or> sint (ExternalPort c) > 65535
      then Some (ErrorString ''invalid external port; must be between 1 and 65535'')
      else if sint (InternalPort c) < 1 \<or> sint (InternalPort c) > 65535
      then Some (ErrorString ''invalid external port; must be between 1 and 65535'')
      else if sint (PortRange c) < 0 \<or> sint (PortRange c) > 65535
      then Some (ErrorString ''invalid port range; must be between 1 and 65535'')
      else if Protocol c \<noteq> ProtocolTCP \<and> Protocol c \<noteq> ProtocolUDP \<and> Protocol c \<noteq> ProtocolTCPUDP
      then Some (ErrorString ''invalid protocol; must be one of: "tcp", "udp" or "tcp/udp"'')
      else if \<not> net_ParseIP lib (Destination c)
      then Some (ErrorString ''invalid destination; must be a valid IP address'')
      else None)\<close>

text \<open>The request envelope \<open>UpsertPortForwarding\<close> builds for a configuration.\<close>

definition setPortForwardingPayload :: "PortForwardingConfig \<Rightarrow> apiRequest" where
  "setPortForwardingPayload cfg =
     \<lparr>Method = ''setPortForwarding'', Service = ''Firewall'',
      Parameters = [''id'' \<mapsto> AString (''webui_'' @ Name cfg),
                    ''description'' \<mapsto> AString (Name cfg),
                    ''protocol'' \<mapsto> AString (intString (Protocol cfg)),
                    ''internalPort'' \<mapsto> AInt (InternalPort cfg),
                    ''externalPort'' \<mapsto> AString (formatPortRange (ExternalPort cfg) (PortRange cfg)),
                    ''destinationIPAddress'' \<mapsto> AString (Destination cfg),
                    ''sourcePrefix'' \<mapsto> AString '''',
                    ''persistent'' \<mapsto> ABool True,
                    ''enable'' \<mapsto> ABool (Enabled cfg),
                    ''sourceInterface'' \<mapsto> AString ''data'',
                    ''origin'' \<mapsto> AString ''webui'']\<rparr>"

definition UpsertPortForwarding ::
  "stdlib \<Rightarrow> Client \<Rightarrow> PortForwardingConfig \<Rightarrow> error option \<times> Client" where
  "UpsertPortForwarding lib c cfg =
     (case validate lib cfg of
        Some err \<Rightarrow> (Some (Wrapped ''validate configuration'' err), c)
      | None \<Rightarrow>
          (case doReq lib c (setPortForwardingPayload cfg) of
             (Inl err, c') \<Rightarrow> (Some (Wrapped ''do request'' err), c')
           | (Inr st, c') \<Rightarrow> (None, c')))"

subsection \<open>The resource adapter\<close>

text \<open>
  An attribute value of the plugin framework (\<^verbatim>\<open>basetypes.StringValue\<close>,
  \<^verbatim>\<open>Int64Value\<close>, \<^verbatim>\<open>BoolValue\<close>): null, unknown, or a known value. The accessors
  \<^verbatim>\<open>ValueString\<close>, \<^verbatim>\<open>ValueInt64\<close> and \<^verbatim>\<open>ValueBool\<close> return the zero value of the type for a
  null or unknown attribute; \<^verbatim>\<open>int\<close> and \<^verbatim>\<open>int64\<close> are the same 64-bit values.
\<close>

datatype 'a attr = Null | Unknown | Known 'a

definition ValueString :: "string attr \<Rightarrow> string" where
  "ValueString a = (case a of Known s \<Rightarrow> s | _ \<Rightarrow> [])"

definition ValueInt64 :: "go_int attr \<Rightarrow> go_int" where
  "ValueInt64 a = (case a of Known i \<Rightarrow> i | _ \<Rightarrow> 0)"

definition ValueBool :: "bool attr \<Rightarrow> bool" where
  "ValueBool a = (case a of Known b \<Rightarrow> b | _ \<Rightarrow> False)"

record portForwardingModel =
  m_Name :: "string attr"
  m_Protocol :: "string attr"
  m_ExternalPort :: "go_int attr"
  m_InternalPort :: "go_int attr"
  m_PortRange :: "go_int attr"
  m_Destination :: "string attr"
  m_Enabled :: "bool attr"

text \<open>An error diagnostic: its summary, the rule's name and the error it reports.\<close>

datatype diagnostic = AddError string string error

text \<open>
  \<open>portForwardingResource.Create\<close> and \<open>Update\<close>, from the plan read out of the request
  to the state handed to \<^verbatim>\<open>resp.State.Set\<close>.
\<close>

definition Create ::
  "stdlib \<Rightarrow> Client \<Rightarrow> portForwardingModel \<Rightarrow> (diagnostic + portForwardingModel) \<times> Client" where
  "Create lib c plan =
     (let cfg = \<lparr>Name = ValueString (m_Name plan),
                  ExternalPort = ValueInt64 (m_ExternalPort plan),
                  InternalPort = ValueInt64 (m_InternalPort plan),
                  PortRange = ValueInt64 (m_PortRange plan),
                  Protocol = ValueString (m_Protocol plan),
                  Destination = ValueString (m_Destination plan),
                  Enabled = ValueBool (m_Enabled plan)\<rparr>
      in case UpsertPortForwarding lib c cfg of
           (Some err, c') \<Rightarrow> (Inl (AddError ''Error creating port forward'' (Name cfg) err), c')
         | (None, c') \<Rightarrow>
             (Inr (plan\<lparr>m_Name := Known (Name cfg),
                         m_Protocol := Known (Protocol cfg),
                         m_Destination := Known (Destination cfg),
                         m_ExternalPort := Known (ExternalPort cfg),
                         m_InternalPort := Known (InternalPort cfg),
                         m_PortRange := Known (PortRange cfg),
                         m_Enabled := Known (Enabled cfg)\<rparr>), c'))"

definition Update ::
  "stdlib \<Rightarrow> Client \<Rightarrow> portForwardingModel \<Rightarrow> (diagnostic + portForwardingModel) \<times> Client" where
  "Update lib c plan =
     (let cfg = \<lparr>Name = ValueString (m_Name plan),
                  ExternalPort = ValueInt64 (m_ExternalPort plan),
                  InternalPort = ValueInt64 (m_InternalPort plan),
                  PortRange = ValueInt64 (m_PortRange plan),
                  Protocol = ValueString (m_Protocol plan),
                  Destination = ValueString (m_Destination plan),
                  Enabled = ValueBool (m_Enabled plan)\<rparr>
      in case UpsertPortForwarding lib c cfg of
           (Some err, c') \<Rightarrow> (Inl (AddError ''Error updating port forward'' (Name cfg) err), c')
         | (None, c') \<Rightarrow>
             (Inr (plan\<lparr>m_Name := Known (Name cfg),
                         m_Protocol := Known (Protocol cfg),
                         m_Destination := Known (Destination cfg),
                         m_ExternalPort := Known (ExternalPort cfg),
                         m_InternalPort := Known (InternalPort cfg),
                         m_PortRange := Known (PortRange cfg),
                         m_Enabled := Known (Enabled cfg)\<rparr>), c'))"

subsection \<open>Sample library behaviour and networks\<close>

text \<open>
  Concrete values at which the theorems below are instantiated. The response bodies are
  JSON texts of the router's API; \<open>sample_lib\<close> gives the library calls on them: what
  \<^verbatim>\<open>encoding/json\<close> decodes each body into (a field that is absent leaves the zero value,
  a field the target does not have is ignored), and \<^verbatim>\<open>net.ParseIP\<close> on the address used.
  The body of a request is abridged to the service and the method of its envelope.
\<close>

definition errorBody :: string where
  \<open>errorBody =
     ''{"status":null,"errors":[{"error":196618,"description":"Permission denied","info":""}]}''\<close>

definition errorPayload :: string where
  \<open>errorPayload = ''[{"error":196618,"description":"Permission denied","info":""}]''\<close>

definition okBody :: string where
  \<open>okBody = ''{"status":true}''\<close>

definition loginBody :: string where
  \<open>loginBody = ''{"status":0,"data":{"contextID":"Zm9vYmFy","username":"admin"}}''\<close>

definition rulesBody :: string where
  \<open>rulesBody = ''{"status":{"webui_wireguard":{"Id":"webui_wireguard","Protocol":"17","ExternalPort":"51820","InternalPort":"51820","DestinationIPAddress":"192.168.10.200","Enable":true}}}''\<close>

definition rulesStatus :: string where
  \<open>rulesStatus = ''{"webui_wireguard":{"Id":"webui_wireguard","Protocol":"17","ExternalPort":"51820","InternalPort":"51820","DestinationIPAddress":"192.168.10.200","Enable":true}}''\<close>

definition wireguardRaw :: getPortForwardingResp where
  "wireguardRaw =
     \<lparr>raw_ID = ''webui_wireguard'', raw_Origin = [], raw_Description = [], raw_Status = [],
      raw_SourceInterface = [], raw_Protocol = ''17'', raw_ExternalPort = ''51820'',
      raw_InternalPort = ''51820'', raw_SourcePrefix = [],
      raw_DestinationIPAddress = ''192.168.10.200'', raw_DestinationMACAddress = [],
      raw_LeaseDuration = 0, raw_HairpinNAT = False, raw_SymmetricSNAT = False,
      raw_UPnPV1Compat = False, raw_Enable = True\<rparr>"

definition sample_lib :: stdlib where
  "sample_lib =
     \<lparr>json_Marshal = (\<lambda>r. Inr (Service r @ ''.'' @ Method r)),
      url_Parse = (\<lambda>url. None),
      decode_apiResponse =
        (\<lambda>body. if body = errorBody then Inr \<lparr>Status = ''null'', Errors = errorPayload\<rparr>
                else if body = okBody then Inr \<lparr>Status = ''true'', Errors = []\<rparr>
                else if body = rulesBody then Inr \<lparr>Status = rulesStatus, Errors = []\<rparr>
                else Inl (External ''json: cannot decode the envelope'')),
      decode_loginResponse =
        (\<lambda>body. if body = loginBody then Inr ''Zm9vYmFy''
                else if body = errorBody then Inr []
                else Inl (External ''json: cannot decode the login response'')),
      Unmarshal_getPortForwarding =
        (\<lambda>data. if data = rulesStatus then Inr [(''webui_wireguard'', wireguardRaw)]
                else Inl (External ''json: cannot unmarshal the rules'')),
      net_ParseIP = (\<lambda>s. s = ''192.168.10.200'')\<rparr>"

text \<open>
  A network that has carried no request yet and answers every request with the given
  status code and body.
\<close>

definition answering :: "int \<Rightarrow> string \<Rightarrow> http_Client" where
  "answering code body =
     \<lparr>issued = [],
      answer = (\<lambda>history req. Inr \<lparr>StatusCode = code, resp_Header = Map.empty, resp_Body = body\<rparr>)\<rparr>"

definition sample_client :: "http_Client \<Rightarrow> Client" where
  "sample_client hc = \<lparr>host = ''https://192.168.1.1'', token = ''Zm9vYmFy'', httpClient = hc\<rparr>"

definition wireguardConfig :: PortForwardingConfig where
  "wireguardConfig =
     \<lparr>Name = ''wireguard'', ExternalPort = 51820, InternalPort = 51820, PortRange = 0,
      Protocol = ''udp'', Destination = ''192.168.10.200'', Enabled = True\<rparr>"

definition wireguardPlan :: portForwardingModel where
  "wireguardPlan =
     \<lparr>m_Name = Known ''wireguard'', m_Protocol = Known ''udp'',
      m_ExternalPort = Known 51820, m_InternalPort = Known 51820, m_PortRange = Known 0,
      m_Destination = Known ''192.168.10.200'', m_Enabled = Known True\<rparr>"

text \<open>
  A response whose errors field is present and holds the empty JSON array. The field is a
  \<^verbatim>\<open>json.RawMessage\<close>, so decoding leaves the two bytes \<open>[]\<close> in it.
\<close>

definition emptyErrorsBody :: string where
  \<open>emptyErrorsBody = ''{"status":true,"errors":[]}''\<close>

definition sample_lib_empty_errors :: stdlib where
  "sample_lib_empty_errors =
     sample_lib\<lparr>decode_apiResponse :=
       (\<lambda>body. if body = emptyErrorsBody then Inr \<lparr>Status = ''true'', Errors = ''[]''\<rparr>
               else decode_apiResponse sample_lib body)\<rparr>"

section \<open>Properties of the codecs\<close>

subsection \<open>Decimal conversion\<close>

lemma formatBits_small: "u < 10 \<Longrightarrow> formatBits u = [digit u]"
  by (simp add: formatBits.simps)

lemma formatBits_large:
  "\<not> u < 10 \<Longrightarrow> formatBits u = formatBits (u div 10) @ [digit (u mod 10)]"
  by (subst formatBits.simps) simp

lemma below_ten: "d < 10 \<Longrightarrow> d \<in> {0, 1, 2, 3, 4, 5, 6, 7, 8, 9::nat}"
  by auto

lemma isDigit_digit: "d < 10 \<Longrightarrow> isDigit (digit d)"
  by (drule below_ten) (auto simp: digit_def isDigit_def)

lemma digitVal_digit: "d < 10 \<Longrightarrow> digitVal (digit d) = d"
  by (drule below_ten) (auto simp: digit_def digitVal_def)

lemma isDigit_not_sign: "isDigit c \<Longrightarrow> c \<noteq> CHR ''-'' \<and> c \<noteq> CHR ''+''"
  by (auto simp: isDigit_def)

lemma formatBits_all_digits: "list_all isDigit (formatBits u)"
proof (induction u rule: formatBits.induct)
  case (1 u)
  show ?case
  proof (cases "u < 10")
    case True
    then show ?thesis by (simp add: formatBits_small isDigit_digit)
  next
    case False
    with 1 show ?thesis by (simp add: formatBits_large isDigit_digit)
  qed
qed

lemma formatBits_nonempty: "formatBits u \<noteq> []"
  by (cases "u < 10") (simp_all add: formatBits_small formatBits_large)

text \<open>The value of a digit string, read from the left with a start value.\<close>

lemma digits_value_formatBits:
  "foldl (\<lambda>n c. n * 10 + digitVal c) 0 (formatBits u) = u"
proof (induction u rule: formatBits.induct)
  case (1 u)
  show ?case
  proof (cases "u < 10")
    case True
    then show ?thesis by (simp add: formatBits_small digitVal_digit)
  next
    case False
    with 1 show ?thesis by (simp add: formatBits_large digitVal_digit)
  qed
qed

lemma digits_value_ge: "n \<le> foldl (\<lambda>n c. n * 10 + digitVal c) n ds"
proof (induction ds arbitrary: n)
  case Nil
  show ?case by simp
next
  case (Cons c cs)
  have "n \<le> n * 10 + digitVal c" by simp
  also have "\<dots> \<le> foldl (\<lambda>n c. n * 10 + digitVal c) (n * 10 + digitVal c) cs"
    by (rule Cons.IH)
  finally show ?case by simp
qed

lemma parseUint_digits:
  "list_all isDigit ds \<Longrightarrow> foldl (\<lambda>n c. n * 10 + digitVal c) n ds \<le> 2 ^ 64 - 1 \<Longrightarrow>
   parseUint n ds = Inr (foldl (\<lambda>n c. n * 10 + digitVal c) n ds)"
proof (induction ds arbitrary: n)
  case Nil
  show ?case by simp
next
  case (Cons c cs)
  from Cons.prems(2) have le: "foldl (\<lambda>n c. n * 10 + digitVal c) (n * 10 + digitVal c) cs \<le> 2 ^ 64 - 1"
    by simp
  have "n * 10 + digitVal c \<le> foldl (\<lambda>n c. n * 10 + digitVal c) (n * 10 + digitVal c) cs"
    by (rule digits_value_ge)
  with le have fits: "\<not> 2 ^ 64 - 1 < n * 10 + digitVal c" by simp
  from Cons.prems(1) have d: "isDigit c" and r: "list_all isDigit cs" by simp_all
  from Cons.IH [OF r le] d fits show ?case by simp
qed

lemma parseUint_formatBits: "u \<le> 2 ^ 64 - 1 \<Longrightarrow> parseUint 0 (formatBits u) = Inr u"
  using parseUint_digits [of "formatBits u" 0]
  by (simp add: formatBits_all_digits digits_value_formatBits)

lemma hd_formatBits_not_sign:
  "hd (formatBits u) \<noteq> CHR ''-'' \<and> hd (formatBits u) \<noteq> CHR ''+''"
proof -
  have "hd (formatBits u) \<in> set (formatBits u)" by (simp add: formatBits_nonempty)
  then have "isDigit (hd (formatBits u))"
    using formatBits_all_digits [of u] by (simp add: list_all_iff)
  then show ?thesis by (rule isDigit_not_sign)
qed

text \<open>Every \<^verbatim>\<open>int\<close> survives printing and parsing, the most negative one included.\<close>

lemma Atoi_Itoa: "Atoi (Itoa i) = Inr i"
proof (cases "sint i < 0")
  case True
  have lo: "- (2 ^ 63) \<le> sint i" using sint_ge [of i] by simp
  with True have "nat (- sint i) \<le> 2 ^ 64 - 1" by simp
  then have p: "parseUint 0 (formatBits (nat (- sint i))) = Inr (nat (- sint i))"
    by (rule parseUint_formatBits)
  from True lo show ?thesis
    by (simp add: Itoa_def Atoi_def Let_def formatBits_nonempty p)
next
  case False
  have hi: "sint i < 2 ^ 63" using sint_lt [of i] by simp
  with False have "nat (sint i) \<le> 2 ^ 64 - 1" by simp
  then have p: "parseUint 0 (formatBits (nat (sint i))) = Inr (nat (sint i))"
    by (rule parseUint_formatBits)
  from False hi show ?thesis
    by (simp add: Itoa_def Atoi_def Let_def formatBits_nonempty p hd_formatBits_not_sign)
qed

lemma Itoa_no_dash: "0 \<le> sint i \<Longrightarrow> CHR ''-'' \<notin> set (Itoa i)"
  using formatBits_all_digits [of "nat (sint i)"]
  by (auto simp: Itoa_def list_all_iff dest: isDigit_not_sign)

text \<open>
  \<open>SplitN2\<close> returns one or two parts, so the indices 0 and 1 that \<open>parsePortRange\<close> reads
  (the second only when there is more than one part) are in range.
\<close>

lemma SplitN2_length: "length (SplitN2 s sep) = 1 \<or> length (SplitN2 s sep) = 2"
  by (simp add: SplitN2_def)

lemma SplitN2_single: "sep \<notin> set s \<Longrightarrow> SplitN2 s sep = [s]"
  by (simp add: SplitN2_def)

lemma SplitN2_pair: "sep \<notin> set a \<Longrightarrow> SplitN2 (a @ sep # b) sep = [a, b]"
  by (induction a) (auto simp: SplitN2_def)

subsection \<open>Port ranges\<close>

lemma parsePortRange_plain: "0 \<le> sint p \<Longrightarrow> parsePortRange (Itoa p) = Inr (p, 0)"
  by (simp add: parsePortRange_def SplitN2_single Itoa_no_dash Atoi_Itoa)

lemma parsePortRange_range:
  "0 \<le> sint p \<Longrightarrow> parsePortRange (Itoa p @ ''-'' @ Itoa q) = Inr (p, q - p)"
  by (simp add: parsePortRange_def SplitN2_pair Itoa_no_dash Atoi_Itoa)

text \<open>
  Claim C4. For every port \<open>p\<close> in \<open>[1, 65535]\<close>, parsing the decimal string of \<open>p\<close> and
  formatting the pair obtained gives that string back; and for every range extent
  \<open>r \<ge> 2\<close>, parsing \<open>formatPortRange p r\<close> gives exactly \<open>(p, r)\<close>. The extent is any
  \<^verbatim>\<open>int\<close>: where \<open>p + r\<close> wraps around, the subtraction in \<open>parsePortRange\<close> wraps back.
\<close>

theorem port_range_codec_roundtrip:
  assumes "1 \<le> sint p" and "sint p \<le> 65535"
  shows "map_sum id (\<lambda>(e, r). formatPortRange e r) (parsePortRange (Itoa p)) = Inr (Itoa p) \<and>
         (\<forall>r. 2 \<le> sint r \<longrightarrow> parsePortRange (formatPortRange p r) = Inr (p, r))"
proof -
  from assms have nonneg: "0 \<le> sint p" by simp
  have a: "parsePortRange (Itoa p) = Inr (p, 0)"
    using nonneg by (rule parsePortRange_plain)
  have b: "formatPortRange p 0 = Itoa p" by (simp add: formatPortRange_def)
  have c: "parsePortRange (formatPortRange p r) = Inr (p, r)" if "2 \<le> sint r" for r
  proof -
    from that have "r \<noteq> 0" "r \<noteq> 1" by auto
    then show ?thesis
      using parsePortRange_range [OF nonneg, of "p + r"] by (simp add: formatPortRange_def)
  qed
  from a b c show ?thesis by simp
qed

theorem port_range_codec_roundtrip_witness:
  "1 \<le> sint (51820 :: go_int) \<and> sint (51820 :: go_int) \<le> 65535 \<and> 2 \<le> sint (5 :: go_int) \<and>
   map_sum id (\<lambda>(e, r). formatPortRange e r) (parsePortRange (Itoa 51820)) = Inr (Itoa 51820) \<and>
   parsePortRange (formatPortRange 51820 5) = Inr (51820, 5)"
proof -
  have h1: "1 \<le> sint (51820 :: go_int)" by simp
  have h2: "sint (51820 :: go_int) \<le> 65535" by simp
  have h3: "2 \<le> sint (5 :: go_int)" by simp
  from port_range_codec_roundtrip [OF h1 h2] h1 h2 h3 show ?thesis by blast
qed

text \<open>
  Claim C5. \<open>formatPortRange p r\<close> is the plain decimal string of \<open>p\<close> when \<open>r\<close> is 0 or 1
  (both extents mean "no range" and print alike), and the string \<open><p>-<p+r>\<close> for every
  other \<open>r\<close>, the sum being Go's \<^verbatim>\<open>int\<close> addition.
\<close>

theorem formatPortRange_cases:
  "formatPortRange p 0 = Itoa p \<and> formatPortRange p 1 = Itoa p \<and>
   (\<forall>r. r \<noteq> 0 \<and> r \<noteq> 1 \<longrightarrow> formatPortRange p r = Itoa p @ ''-'' @ Itoa (p + r))"
  by (simp add: formatPortRange_def)

theorem formatPortRange_cases_witness:
  "formatPortRange 8080 0 = ''8080'' \<and> formatPortRange 8080 1 = ''8080'' \<and>
   (10 :: go_int) \<noteq> 0 \<and> (10 :: go_int) \<noteq> 1 \<and> formatPortRange 8080 10 = ''8080-8090''"
proof -
  have n: "(10 :: go_int) \<noteq> 0 \<and> (10 :: go_int) \<noteq> 1" by simp
  from formatPortRange_cases [of 8080] n show ?thesis
    by (simp add: Itoa_def formatBits_small formatBits_large digit_def)
qed

subsection \<open>Protocols\<close>

text \<open>
  Claim C6. Decoding the wire encoding of TCP, UDP and TCP+UDP gives the protocol back,
  the encodings being \<open>6\<close>, \<open>17\<close> and \<open>6,17\<close>; every other wire string decodes to Unknown;
  and Unknown encodes to the empty string.
\<close>

theorem protocol_codec:
  "intString ProtocolTCP = ''6'' \<and> intString ProtocolUDP = ''17'' \<and>
   intString ProtocolTCPUDP = ''6,17'' \<and>
   parseProtocol (intString ProtocolTCP) = ProtocolTCP \<and>
   parseProtocol (intString ProtocolUDP) = ProtocolUDP \<and>
   parseProtocol (intString ProtocolTCPUDP) = ProtocolTCPUDP \<and>
   (\<forall>w. w \<noteq> ''6'' \<and> w \<noteq> ''17'' \<and> w \<noteq> ''6,17'' \<longrightarrow> parseProtocol w = ProtocolUnknown) \<and>
   intString ProtocolUnknown = ''''"
  by (simp add: intString_def parseProtocol_def ProtocolTCP_def ProtocolUDP_def
      ProtocolTCPUDP_def ProtocolUnknown_def)

theorem protocol_codec_witness:
  "''1'' \<noteq> ''6'' \<and> ''1'' \<noteq> ''17'' \<and> ''1'' \<noteq> ''6,17'' \<and>
   parseProtocol ''1'' = ProtocolUnknown \<and>
   parseProtocol (intString ProtocolUDP) = ProtocolUDP"
proof -
  have n: "''1'' \<noteq> ''6'' \<and> ''1'' \<noteq> ''17'' \<and> ''1'' \<noteq> ''6,17''" by simp
  from protocol_codec have a: "parseProtocol (intString ProtocolUDP) = ProtocolUDP"
    by (elim conjE)
  from protocol_codec
  have "''1'' \<noteq> ''6'' \<and> ''1'' \<noteq> ''17'' \<and> ''1'' \<noteq> ''6,17'' \<longrightarrow> parseProtocol ''1'' = ProtocolUnknown"
    by (elim conjE allE)
  with n have b: "parseProtocol ''1'' = ProtocolUnknown" by (rule rev_mp)
  from n a b show ?thesis by (intro conjI) (elim conjE, assumption)+
qed

section \<open>The cookie-name transport shim\<close>

lemma ReplaceAll_absent: "\<not> Contains s old \<Longrightarrow> ReplaceAll s old new = s"
  by (induction s) auto

lemma ReplaceAll_once:
  assumes "hd old \<notin> set pre" and "old \<noteq> []" and "\<not> Contains post old"
  shows "ReplaceAll (pre @ old @ post) old new = pre @ new @ post"
  using assms(1)
proof (induction pre)
  case Nil
  from assms(2) obtain c cs where "old = c # cs" by (cases old) auto
  with assms(3) show ?case by (simp add: ReplaceAll_absent)
next
  case (Cons a pre)
  from Cons.prems assms(2) have "\<not> prefix old (a # pre @ old @ post)"
    by (cases old) auto
  with Cons show ?case by simp
qed

text \<open>
  The guard of each block is redundant for the result: where the first value does not
  contain the name, the replacement leaves it as it is. So each block rewrites the first
  value of its header field, whatever it is, and nothing else: the later values of the
  field, the other fields and the rest of the message stay as they are.
\<close>

lemma replaceFirstValue_absent:
  "\<not> Contains (Header_Get h key) old \<Longrightarrow> replaceFirstValue h key old new = h"
  by (auto simp: replaceFirstValue_def Header_Get_def ReplaceAll_absent
      split: option.splits list.splits)

lemma patchRequest_eq:
  "patchRequest req =
   req\<lparr>req_Header :=
     (case req_Header req ''Cookie'' of
        Some (v # vs) \<Rightarrow> (req_Header req)(''Cookie'' \<mapsto> ReplaceAll v ''-sessid'' ''/sessid'' # vs)
      | _ \<Rightarrow> req_Header req)\<rparr>"
proof (cases "Contains (Header_Get (req_Header req) ''Cookie'') patchedCookieName")
  case True
  then show ?thesis
    by (simp add: patchRequest_def replaceFirstValue_def patchedCookieName_def
        realCookieName_def)
next
  case False
  from replaceFirstValue_absent [OF False, of realCookieName] False show ?thesis
    by (simp add: patchRequest_def replaceFirstValue_def patchedCookieName_def
        realCookieName_def)
qed

lemma patchResponse_eq:
  "patchResponse resp =
   resp\<lparr>resp_Header :=
     (case resp_Header resp ''Set-Cookie'' of
        Some (v # vs) \<Rightarrow>
          (resp_Header resp)(''Set-Cookie'' \<mapsto> ReplaceAll v ''/sessid'' ''-sessid'' # vs)
      | _ \<Rightarrow> resp_Header resp)\<rparr>"
proof (cases "Contains (Header_Get (resp_Header resp) ''Set-Cookie'') realCookieName")
  case True
  then show ?thesis
    by (simp add: patchResponse_def replaceFirstValue_def patchedCookieName_def
        realCookieName_def)
next
  case False
  from replaceFirstValue_absent [OF False, of patchedCookieName] False show ?thesis
    by (simp add: patchResponse_def replaceFirstValue_def patchedCookieName_def
        realCookieName_def)
qed

lemma patchRequest_frame:
  "(\<forall>key. key \<noteq> ''Cookie'' \<longrightarrow> req_Header (patchRequest req) key = req_Header req key) \<and>
   (\<forall>v vs. req_Header req ''Cookie'' = Some (v # vs) \<longrightarrow>
      req_Header (patchRequest req) ''Cookie'' = Some (ReplaceAll v ''-sessid'' ''/sessid'' # vs)) \<and>
   (req_Header req ''Cookie'' = None \<or> req_Header req ''Cookie'' = Some [] \<longrightarrow>
      req_Header (patchRequest req) ''Cookie'' = req_Header req ''Cookie'')"
  by (auto simp: patchRequest_eq split: option.splits list.splits)

lemma patchResponse_frame:
  "(\<forall>key. key \<noteq> ''Set-Cookie'' \<longrightarrow>
      resp_Header (patchResponse resp) key = resp_Header resp key) \<and>
   (\<forall>v vs. resp_Header resp ''Set-Cookie'' = Some (v # vs) \<longrightarrow>
      resp_Header (patchResponse resp) ''Set-Cookie'' =
        Some (ReplaceAll v ''/sessid'' ''-sessid'' # vs)) \<and>
   (resp_Header resp ''Set-Cookie'' = None \<or> resp_Header resp ''Set-Cookie'' = Some [] \<longrightarrow>
      resp_Header (patchResponse resp) ''Set-Cookie'' = resp_Header resp ''Set-Cookie'')"
  by (auto simp: patchResponse_eq split: option.splits list.splits)

lemma rename_outgoing:
  "(\<forall>v. \<not> Contains v ''-sessid'' \<longrightarrow> ReplaceAll v ''-sessid'' ''/sessid'' = v) \<and>
   (\<forall>pre post. CHR ''-'' \<notin> set pre \<and> \<not> Contains post ''-sessid'' \<longrightarrow>
      ReplaceAll (pre @ ''-sessid'' @ post) ''-sessid'' ''/sessid'' = pre @ ''/sessid'' @ post)"
proof (intro conjI allI impI)
  fix v assume "\<not> Contains v ''-sessid''"
  then show "ReplaceAll v ''-sessid'' ''/sessid'' = v" by (rule ReplaceAll_absent)
next
  fix pre post assume h: "CHR ''-'' \<notin> set pre \<and> \<not> Contains post ''-sessid''"
  then have "hd ''-sessid'' \<notin> set pre" by simp
  moreover have "''-sessid'' \<noteq> []" by simp
  moreover from h have "\<not> Contains post ''-sessid''" by simp
  ultimately show "ReplaceAll (pre @ ''-sessid'' @ post) ''-sessid'' ''/sessid'' = pre @ ''/sessid'' @ post"
    by (rule ReplaceAll_once)
qed

lemma rename_incoming:
  "(\<forall>v. \<not> Contains v ''/sessid'' \<longrightarrow> ReplaceAll v ''/sessid'' ''-sessid'' = v) \<and>
   (\<forall>pre post. CHR ''/'' \<notin> set pre \<and> \<not> Contains post ''/sessid'' \<longrightarrow>
      ReplaceAll (pre @ ''/sessid'' @ post) ''/sessid'' ''-sessid'' = pre @ ''-sessid'' @ post)"
proof (intro conjI allI impI)
  fix v assume "\<not> Contains v ''/sessid''"
  then show "ReplaceAll v ''/sessid'' ''-sessid'' = v" by (rule ReplaceAll_absent)
next
  fix pre post assume h: "CHR ''/'' \<notin> set pre \<and> \<not> Contains post ''/sessid''"
  then have "hd ''/sessid'' \<notin> set pre" by simp
  moreover have "''/sessid'' \<noteq> []" by simp
  moreover from h have "\<not> Contains post ''/sessid''" by simp
  ultimately show "ReplaceAll (pre @ ''/sessid'' @ post) ''/sessid'' ''-sessid'' = pre @ ''-sessid'' @ post"
    by (rule ReplaceAll_once)
qed

text \<open>
  Claim C2, as stated, fails in two ways. First, the shim does not rename one cookie: it
  replaces the text \<open>-sessid\<close> wherever it stands in the first value of the Cookie header.
  A request that carries the session cookie and a second cookie named \<open>x-sessid\<close> reaches
  the wrapped transport with the second cookie renamed to \<open>x/sessid\<close>: the text of the
  other cookie, present in the header the caller handed over, is no longer in the header
  that is sent. Second, the shim reads and writes the first value of the header only: a
  response whose session cookie stands in its second Set-Cookie value comes back with
  the real wire name \<open>/sessid\<close> still in it.
\<close>

theorem cookie_shim_counterexample:
  "Header_Get
     (req_Header
        (patchRequest
           \<lparr>req_Method = ''POST'', req_URL = ''https://192.168.1.1/ws'',
            req_Header = map_of [(''Cookie'', [''-sessid=abc; x-sessid=1''])],
            req_Body = ''{}''\<rparr>)) ''Cookie''
     = ''/sessid=abc; x/sessid=1'' \<and>
   Contains ''-sessid=abc; x-sessid=1'' ''x-sessid=1'' \<and>
   \<not> Contains ''/sessid=abc; x/sessid=1'' ''x-sessid=1'' \<and>
   resp_Header
     (patchResponse
        \<lparr>StatusCode = 200,
         resp_Header = map_of [(''Set-Cookie'', [''lang=fr'', ''a1b2/sessid=abc; path=/''])],
         resp_Body = ''{}''\<rparr>) ''Set-Cookie''
     = Some [''lang=fr'', ''a1b2/sessid=abc; path=/'']"
  by (simp add: patchRequest_def patchResponse_def Header_Get_def replaceFirstValue_def
      patchedCookieName_def realCookieName_def)

text \<open>
  Claim C2, amended. \<open>RoundTrip\<close> hands \<open>patchRequest req\<close> to the wrapped transport and
  returns \<open>patchResponse\<close> of its response, and an error of the transport as it is.
  \<open>patchRequest\<close> changes nothing but the first value of the Cookie header, in which it
  replaces every occurrence of the text \<open>-sessid\<close> by \<open>/sessid\<close>; \<open>patchResponse\<close> changes
  nothing but the first value of the Set-Cookie header, in which it replaces every
  occurrence of \<open>/sessid\<close> by \<open>-sessid\<close>: a substitution on the text of that one value,
  not on cookie names. The later values of the two fields, every other header field and
  the rest of the message are exactly as they were, so no header value is added or
  removed, and a session cookie in a later value is not renamed. A first value that does
  not contain the name is unchanged; one in which the name occurs once, with no \<open>-\<close>
  (outgoing) or \<open>/\<close> (incoming) before it, has exactly that occurrence renamed.
\<close>

theorem cookie_shim_substitution:
  "RoundTrip transport req =
     (case transport (patchRequest req) of
        Inl err \<Rightarrow> Inl err
      | Inr resp \<Rightarrow> Inr (patchResponse resp)) \<and>
   patchRequest req =
     req\<lparr>req_Header :=
       (case req_Header req ''Cookie'' of
          Some (v # vs) \<Rightarrow> (req_Header req)(''Cookie'' \<mapsto> ReplaceAll v ''-sessid'' ''/sessid'' # vs)
        | _ \<Rightarrow> req_Header req)\<rparr> \<and>
   ((\<forall>key. key \<noteq> ''Cookie'' \<longrightarrow> req_Header (patchRequest req) key = req_Header req key) \<and>
    (\<forall>v vs. req_Header req ''Cookie'' = Some (v # vs) \<longrightarrow>
       req_Header (patchRequest req) ''Cookie'' = Some (ReplaceAll v ''-sessid'' ''/sessid'' # vs)) \<and>
    (req_Header req ''Cookie'' = None \<or> req_Header req ''Cookie'' = Some [] \<longrightarrow>
       req_Header (patchRequest req) ''Cookie'' = req_Header req ''Cookie'')) \<and>
   patchResponse resp =
     resp\<lparr>resp_Header :=
       (case resp_Header resp ''Set-Cookie'' of
          Some (v # vs) \<Rightarrow>
            (resp_Header resp)(''Set-Cookie'' \<mapsto> ReplaceAll v ''/sessid'' ''-sessid'' # vs)
        | _ \<Rightarrow> resp_Header resp)\<rparr> \<and>
   ((\<forall>key. key \<noteq> ''Set-Cookie'' \<longrightarrow>
       resp_Header (patchResponse resp) key = resp_Header resp key) \<and>
    (\<forall>v vs. resp_Header resp ''Set-Cookie'' = Some (v # vs) \<longrightarrow>
       resp_Header (patchResponse resp) ''Set-Cookie'' =
         Some (ReplaceAll v ''/sessid'' ''-sessid'' # vs)) \<and>
    (resp_Header resp ''Set-Cookie'' = None \<or> resp_Header resp ''Set-Cookie'' = Some [] \<longrightarrow>
       resp_Header (patchResponse resp) ''Set-Cookie'' = resp_Header resp ''Set-Cookie'')) \<and>
   ((\<forall>v. \<not> Contains v ''-sessid'' \<longrightarrow> ReplaceAll v ''-sessid'' ''/sessid'' = v) \<and>
    (\<forall>pre post. CHR ''-'' \<notin> set pre \<and> \<not> Contains post ''-sessid'' \<longrightarrow>
       ReplaceAll (pre @ ''-sessid'' @ post) ''-sessid'' ''/sessid'' = pre @ ''/sessid'' @ post)) \<and>
   ((\<forall>v. \<not> Contains v ''/sessid'' \<longrightarrow> ReplaceAll v ''/sessid'' ''-sessid'' = v) \<and>
    (\<forall>pre post. CHR ''/'' \<notin> set pre \<and> \<not> Contains post ''/sessid'' \<longrightarrow>
       ReplaceAll (pre @ ''/sessid'' @ post) ''/sessid'' ''-sessid'' = pre @ ''-sessid'' @ post))"
proof -
  have r: "RoundTrip transport req =
     (case transport (patchRequest req) of
        Inl err \<Rightarrow> Inl err
      | Inr resp \<Rightarrow> Inr (patchResponse resp))"
    by (simp add: RoundTrip_def)
  show ?thesis
    by (rule conjI [OF r conjI [OF patchRequest_eq conjI [OF patchRequest_frame
          conjI [OF patchResponse_eq conjI [OF patchResponse_frame
          conjI [OF rename_outgoing rename_incoming]]]]]])
qed

theorem cookie_shim_substitution_witness:
  "req_Header
     (patchRequest
        \<lparr>req_Method = ''POST'', req_URL = ''https://192.168.1.1/ws'',
         req_Header = map_of [(''Cookie'', [''a1b2-sessid=abc'']), (''Accept'', [''*/*''])],
         req_Body = ''{}''\<rparr>) ''Cookie'' = Some [''a1b2/sessid=abc''] \<and>
   req_Header
     (patchRequest
        \<lparr>req_Method = ''POST'', req_URL = ''https://192.168.1.1/ws'',
         req_Header = map_of [(''Cookie'', [''a1b2-sessid=abc'']), (''Accept'', [''*/*''])],
         req_Body = ''{}''\<rparr>) ''Accept'' = Some [''*/*''] \<and>
   resp_Header
     (patchResponse
        \<lparr>StatusCode = 200,
         resp_Header = map_of [(''Set-Cookie'', [''a1b2/sessid=abc; path=/'', ''lang=fr''])],
         resp_Body = ''{}''\<rparr>) ''Set-Cookie'' = Some [''a1b2-sessid=abc; path=/'', ''lang=fr'']"
proof -
  let ?R = "\<lparr>req_Method = ''POST'', req_URL = ''https://192.168.1.1/ws'',
         req_Header = map_of [(''Cookie'', [''a1b2-sessid=abc'']), (''Accept'', [''*/*''])],
         req_Body = ''{}''\<rparr>"
  let ?P = "\<lparr>StatusCode = 200,
         resp_Header = map_of [(''Set-Cookie'', [''a1b2/sessid=abc; path=/'', ''lang=fr''])],
         resp_Body = ''{}''\<rparr>"
  note t = cookie_shim_substitution [of "\<lambda>r. Inr ?P" ?R ?P]
  have pre: "CHR ''-'' \<notin> set ''a1b2'' \<and> \<not> Contains ''=abc'' ''-sessid''" by simp
  have pre': "CHR ''/'' \<notin> set ''a1b2'' \<and> \<not> Contains ''=abc; path=/'' ''/sessid''" by simp
  from t have "\<forall>pre post. CHR ''-'' \<notin> set pre \<and> \<not> Contains post ''-sessid'' \<longrightarrow>
       ReplaceAll (pre @ ''-sessid'' @ post) ''-sessid'' ''/sessid'' = pre @ ''/sessid'' @ post"
    by (elim conjE)
  with pre have out: "ReplaceAll (''a1b2'' @ ''-sessid'' @ ''=abc'') ''-sessid'' ''/sessid''
      = ''a1b2'' @ ''/sessid'' @ ''=abc''"
    by (elim allE impE) assumption+
  from t have "\<forall>pre post. CHR ''/'' \<notin> set pre \<and> \<not> Contains post ''/sessid'' \<longrightarrow>
       ReplaceAll (pre @ ''/sessid'' @ post) ''/sessid'' ''-sessid'' = pre @ ''-sessid'' @ post"
    by (elim conjE)
  with pre' have inc: "ReplaceAll (''a1b2'' @ ''/sessid'' @ ''=abc; path=/'') ''/sessid'' ''-sessid''
      = ''a1b2'' @ ''-sessid'' @ ''=abc; path=/''"
    by (elim allE impE) assumption+
  from t have "\<forall>v vs. req_Header ?R ''Cookie'' = Some (v # vs) \<longrightarrow>
       req_Header (patchRequest ?R) ''Cookie'' = Some (ReplaceAll v ''-sessid'' ''/sessid'' # vs)"
    by (elim conjE)
  with out have a: "req_Header (patchRequest ?R) ''Cookie'' = Some [''a1b2/sessid=abc'']"
    by simp
  from t have "\<forall>key. key \<noteq> ''Cookie'' \<longrightarrow> req_Header (patchRequest ?R) key = req_Header ?R key"
    by (elim conjE)
  then have b: "req_Header (patchRequest ?R) ''Accept'' = Some [''*/*'']"
    by simp
  from t have "\<forall>v vs. resp_Header ?P ''Set-Cookie'' = Some (v # vs) \<longrightarrow>
       resp_Header (patchResponse ?P) ''Set-Cookie'' =
         Some (ReplaceAll v ''/sessid'' ''-sessid'' # vs)"
    by (elim conjE)
  with inc have c: "resp_Header (patchResponse ?P) ''Set-Cookie''
      = Some [''a1b2-sessid=abc; path=/'', ''lang=fr'']"
    by simp
  from a b c show ?thesis by (intro conjI)
qed

section \<open>The request executor and the session manager\<close>

text \<open>The request \<open>doReq\<close> issues for an envelope that marshals to the body \<open>b\<close>.\<close>

lemma doReq_issue:
  assumes "json_Marshal lib r = Inr b" and "url_Parse lib (host c @ ''/ws'') = None"
  shows "doReq lib c r =
     (let req = \<lparr>req_Method = ''POST'', req_URL = host c @ ''/ws'',
                  req_Header = [''Authorization'' \<mapsto> [''X-Sah '' @ token c],
                                ''Content-Type'' \<mapsto> [''application/x-sah-ws-4-call+json'']],
                  req_Body = b\<rparr>;
          c' = c\<lparr>httpClient := (httpClient c)\<lparr>issued := issued (httpClient c) @ [req]\<rparr>\<rparr>
      in case answer (httpClient c) (issued (httpClient c)) req of
           Inl err \<Rightarrow> (Inl err, c')
         | Inr resp \<Rightarrow>
             (case decode_apiResponse lib (resp_Body resp) of
                Inl err \<Rightarrow> (Inl err, c')
              | Inr apiResp \<Rightarrow>
                  if Errors apiResp \<noteq> []
                  then (Inl (ErrorString (''api error: '' @ Errors apiResp)), c')
                  else (Inr (Status apiResp), c')))"
  using assms
  by (simp add: doReq_def http_NewRequest_def Header_Set_def Do_def Let_def
      split: sum.splits)

lemma doAuthReq_issue:
  assumes "json_Marshal lib r = Inr b" and "url_Parse lib (host c @ ''/ws'') = None"
  shows "doAuthReq lib c r =
     (let req = \<lparr>req_Method = ''POST'', req_URL = host c @ ''/ws'',
                  req_Header = [''Authorization'' \<mapsto> [''X-Sah-Login''],
                                ''Content-Type'' \<mapsto> [''application/x-sah-ws-4-call+json'']],
                  req_Body = b\<rparr>;
          c' = c\<lparr>httpClient := (httpClient c)\<lparr>issued := issued (httpClient c) @ [req]\<rparr>\<rparr>
      in case answer (httpClient c) (issued (httpClient c)) req of
           Inl err \<Rightarrow> (Inl err, c')
         | Inr resp \<Rightarrow> (Inr resp, c'))"
  using assms
  by (simp add: doAuthReq_def http_NewRequest_def Header_Set_def Do_def Let_def
      split: sum.splits)

lemma doReq_decoded:
  assumes "json_Marshal lib r = Inr b"
    and "url_Parse lib (host c @ ''/ws'') = None"
    and "answer (httpClient c) (issued (httpClient c))
           \<lparr>req_Method = ''POST'', req_URL = host c @ ''/ws'',
            req_Header = [''Authorization'' \<mapsto> [''X-Sah '' @ token c],
                          ''Content-Type'' \<mapsto> [''application/x-sah-ws-4-call+json'']],
            req_Body = b\<rparr>
         = Inr resp"
    and "decode_apiResponse lib (resp_Body resp) = Inr apiResp"
  shows "fst (doReq lib c r) =
     (if Errors apiResp \<noteq> [] then Inl (ErrorString (''api error: '' @ Errors apiResp))
      else Inr (Status apiResp))"
  using assms(3,4) by (simp add: doReq_issue [OF assms(1,2)] Let_def)

text \<open>
  Claim C1, as stated, fails for an errors payload that is present but empty. The test
  of \<open>doReq\<close> is on the raw bytes of the field: the router's answer
  \<open>{"status":true,"errors":[]}\<close>, with HTTP status 200, decodes into an envelope whose
  errors field holds the two bytes \<open>[]\<close>, and the call fails with \<open>api error: []\<close> instead of
  returning the status payload.
\<close>

theorem doReq_empty_errors_counterexample:
  "map_sum id Errors (decode_apiResponse sample_lib_empty_errors emptyErrorsBody) = Inr ''[]'' \<and>
   fst (doReq sample_lib_empty_errors (sample_client (answering 200 emptyErrorsBody))
          \<lparr>Method = ''getPortForwarding'', Service = ''Firewall'',
           Parameters = [''origin'' \<mapsto> AString ''webui'']\<rparr>)
     = Inl (ErrorString ''api error: []'')"
proof -
  let ?c = "sample_client (answering 200 emptyErrorsBody)"
  let ?r = "\<lparr>Method = ''getPortForwarding'', Service = ''Firewall'',
             Parameters = [''origin'' \<mapsto> AString ''webui'']\<rparr>"
  have m: "json_Marshal sample_lib_empty_errors ?r = Inr ''Firewall.getPortForwarding''"
    by (simp add: sample_lib_empty_errors_def sample_lib_def)
  have u: "url_Parse sample_lib_empty_errors (host ?c @ ''/ws'') = None"
    by (simp add: sample_lib_empty_errors_def sample_lib_def)
  have a: "answer (httpClient ?c) (issued (httpClient ?c)) req
           = Inr \<lparr>StatusCode = 200, resp_Header = Map.empty, resp_Body = emptyErrorsBody\<rparr>"
    for req
    by (simp add: sample_client_def answering_def)
  have d: "decode_apiResponse sample_lib_empty_errors
             (resp_Body \<lparr>StatusCode = 200, resp_Header = Map.empty, resp_Body = emptyErrorsBody\<rparr>)
           = Inr \<lparr>Status = ''true'', Errors = ''[]''\<rparr>"
    by (simp add: sample_lib_empty_errors_def)
  from d have e: "map_sum id Errors (decode_apiResponse sample_lib_empty_errors emptyErrorsBody)
                  = Inr ''[]''"
    by simp
  have f: "fst (doReq sample_lib_empty_errors ?c ?r) = Inl (ErrorString ''api error: []'')"
    using doReq_decoded [OF m u a d] by simp
  from e f show ?thesis by (intro conjI)
qed

text \<open>
  Claim C1, amended. For a call through \<open>doReq\<close> whose request is answered by a response,
  of any HTTP status code, that decodes into an envelope: if the errors field of the
  envelope holds at least one byte (any JSON value the body gives the field, the empty
  array, \<open>null\<close> and the empty string included) the call fails with the API error that
  carries those raw bytes; only if the field holds no byte (the body has no errors
  field) does the call return the status payload.
\<close>

theorem doReq_errors_payload:
  assumes "json_Marshal lib r = Inr b"
    and "url_Parse lib (host c @ ''/ws'') = None"
    and "answer (httpClient c) (issued (httpClient c))
           \<lparr>req_Method = ''POST'', req_URL = host c @ ''/ws'',
            req_Header = [''Authorization'' \<mapsto> [''X-Sah '' @ token c],
                          ''Content-Type'' \<mapsto> [''application/x-sah-ws-4-call+json'']],
            req_Body = b\<rparr>
         = Inr (resp\<lparr>StatusCode := code\<rparr>)"
    and "decode_apiResponse lib (resp_Body resp) = Inr apiResp"
  shows "fst (doReq lib c r) =
     (if Errors apiResp \<noteq> [] then Inl (ErrorString (''api error: '' @ Errors apiResp))
      else Inr (Status apiResp)) \<and>
     ((\<exists>st. fst (doReq lib c r) = Inr st) \<longleftrightarrow> Errors apiResp = [])"
  using assms(3,4) by (simp add: doReq_issue [OF assms(1,2)] Let_def)

theorem doReq_errors_payload_witness:
  "fst (doReq sample_lib (sample_client (answering 200 errorBody))
          \<lparr>Method = ''getPortForwarding'', Service = ''Firewall'',
           Parameters = [''origin'' \<mapsto> AString ''webui'']\<rparr>)
     = Inl (ErrorString (''api error: '' @ errorPayload)) \<and>
   fst (doReq sample_lib (sample_client (answering 500 okBody))
          \<lparr>Method = ''getPortForwarding'', Service = ''Firewall'',
           Parameters = [''origin'' \<mapsto> AString ''webui'']\<rparr>)
     = Inr ''true''"
proof -
  let ?r = "\<lparr>Method = ''getPortForwarding'', Service = ''Firewall'',
             Parameters = [''origin'' \<mapsto> AString ''webui'']\<rparr>"
  have m: "json_Marshal sample_lib ?r = Inr ''Firewall.getPortForwarding''"
    by (simp add: sample_lib_def)
  have u: "url_Parse sample_lib (host (sample_client hc) @ ''/ws'') = None" for hc
    by (simp add: sample_lib_def)
  have d1: "decode_apiResponse sample_lib
              (resp_Body \<lparr>StatusCode = 200, resp_Header = Map.empty, resp_Body = errorBody\<rparr>)
            = Inr \<lparr>Status = ''null'', Errors = errorPayload\<rparr>"
    by (simp add: sample_lib_def)
  have d2: "decode_apiResponse sample_lib
              (resp_Body \<lparr>StatusCode = 200, resp_Header = Map.empty, resp_Body = okBody\<rparr>)
            = Inr \<lparr>Status = ''true'', Errors = []\<rparr>"
    by (simp add: sample_lib_def okBody_def errorBody_def)
  have a1: "answer (httpClient (sample_client (answering 200 errorBody)))
              (issued (httpClient (sample_client (answering 200 errorBody)))) req
            = Inr (\<lparr>StatusCode = 200, resp_Header = Map.empty, resp_Body = errorBody\<rparr>
                     \<lparr>StatusCode := 200\<rparr>)" for req
    by (simp add: sample_client_def answering_def)
  have a2: "answer (httpClient (sample_client (answering 500 okBody)))
              (issued (httpClient (sample_client (answering 500 okBody)))) req
            = Inr (\<lparr>StatusCode = 200, resp_Header = Map.empty, resp_Body = okBody\<rparr>
                     \<lparr>StatusCode := 500\<rparr>)" for req
    by (simp add: sample_client_def answering_def)
  have e1: "fst (doReq sample_lib (sample_client (answering 200 errorBody)) ?r)
            = Inl (ErrorString (''api error: '' @ errorPayload))"
    using doReq_errors_payload [OF m u a1 d1] by (simp add: errorPayload_def)
  have e2: "fst (doReq sample_lib (sample_client (answering 500 okBody)) ?r) = Inr ''true''"
    using doReq_errors_payload [OF m u a2 d2] by simp
  from e1 e2 show ?thesis by simp
qed

text \<open>
  \<open>login\<close> takes the session token from the login structure alone: whatever the errors
  payload of the same body is, a body that decodes into the login structure makes the
  login succeed.
\<close>

lemma login_ignores_errors:
  assumes "json_Marshal lib
             \<lparr>Method = ''createContext'', Service = ''sah.Device.Information'',
              Parameters = [''applicationName'' \<mapsto> AString ''webui'',
                            ''username'' \<mapsto> AString ''admin'',
                            ''password'' \<mapsto> AString password]\<rparr> = Inr b"
    and "url_Parse lib (host c @ ''/ws'') = None"
    and "answer (httpClient c) (issued (httpClient c))
           \<lparr>req_Method = ''POST'', req_URL = host c @ ''/ws'',
            req_Header = [''Authorization'' \<mapsto> [''X-Sah-Login''],
                          ''Content-Type'' \<mapsto> [''application/x-sah-ws-4-call+json'']],
            req_Body = b\<rparr>
         = Inr resp"
    and "decode_loginResponse lib (resp_Body resp) = Inr contextID"
  shows "fst (login lib c password) = None \<and> token (snd (login lib c password)) = contextID"
  using assms(3,4) by (simp add: login_def doAuthReq_issue [OF assms(1,2)] Let_def)

text \<open>
  Claim C3 does not hold of the code. The router answers a login with a well-formed
  envelope whose errors payload is not empty (and which has no \<open>data.contextID\<close>). \<open>doReq\<close>
  fails on that response; \<open>login\<close> returns no error and stores the empty token, and
  \<open>NewClient\<close> returns a client.
\<close>

theorem login_accepts_api_error:
  "map_sum id Errors (decode_apiResponse sample_lib errorBody) = Inr errorPayload \<and>
   errorPayload \<noteq> [] \<and>
   fst (doReq sample_lib
          \<lparr>host = ''https://192.168.1.1'', token = [], httpClient = answering 401 errorBody\<rparr>
          \<lparr>Method = ''createContext'', Service = ''sah.Device.Information'',
           Parameters = [''applicationName'' \<mapsto> AString ''webui'',
                         ''username'' \<mapsto> AString ''admin'',
                         ''password'' \<mapsto> AString ''wrong'']\<rparr>)
     = Inl (ErrorString (''api error: '' @ errorPayload)) \<and>
   fst (login sample_lib
          \<lparr>host = ''https://192.168.1.1'', token = [], httpClient = answering 401 errorBody\<rparr>
          ''wrong'') = None \<and>
   token (snd (login sample_lib
          \<lparr>host = ''https://192.168.1.1'', token = [], httpClient = answering 401 errorBody\<rparr>
          ''wrong'')) = [] \<and>
   (case NewClient sample_lib (answering 401 errorBody) ''https://192.168.1.1'' ''wrong'' of
      Inl err \<Rightarrow> False
    | Inr c \<Rightarrow> token c = [])"
proof -
  let ?c = "\<lparr>host = ''https://192.168.1.1'', token = [], httpClient = answering 401 errorBody\<rparr>"
  have m: "json_Marshal sample_lib r = Inr (Service r @ ''.'' @ Method r)" for r
    by (simp add: sample_lib_def)
  have u: "url_Parse sample_lib (host ?c @ ''/ws'') = None"
    by (simp add: sample_lib_def)
  have a: "answer (httpClient ?c) (issued (httpClient ?c)) req
           = Inr \<lparr>StatusCode = 401, resp_Header = Map.empty, resp_Body = errorBody\<rparr>" for req
    by (simp add: answering_def)
  have d: "decode_apiResponse sample_lib errorBody = Inr \<lparr>Status = ''null'', Errors = errorPayload\<rparr>"
    by (simp add: sample_lib_def)
  have dl: "decode_loginResponse sample_lib errorBody = Inr []"
    by (simp add: sample_lib_def errorBody_def loginBody_def)
  have ne: "errorPayload \<noteq> []" by (simp add: errorPayload_def)
  have l: "fst (login sample_lib ?c ''wrong'') = None \<and>
           token (snd (login sample_lib ?c ''wrong'')) = []"
    by (rule login_ignores_errors [OF m u a]) (simp add: dl)
  have q: "fst (doReq sample_lib ?c
          \<lparr>Method = ''createContext'', Service = ''sah.Device.Information'',
           Parameters = [''applicationName'' \<mapsto> AString ''webui'',
                         ''username'' \<mapsto> AString ''admin'',
                         ''password'' \<mapsto> AString ''wrong'']\<rparr>)
     = Inl (ErrorString (''api error: '' @ errorPayload))"
  proof -
    have d': "decode_apiResponse sample_lib
                (resp_Body \<lparr>StatusCode = 401, resp_Header = Map.empty, resp_Body = errorBody\<rparr>)
              = Inr \<lparr>Status = ''null'', Errors = errorPayload\<rparr>"
      using d by simp
    from ne doReq_decoded [OF m u a d'] show ?thesis by simp
  qed
  have n: "(case NewClient sample_lib (answering 401 errorBody) ''https://192.168.1.1'' ''wrong'' of
      Inl err \<Rightarrow> False
    | Inr c \<Rightarrow> token c = [])"
    using l by (cases "login sample_lib ?c ''wrong''") (auto simp: NewClient_def)
  from d ne q l n show ?thesis by simp
qed

section \<open>The port forwarding service\<close>

subsection \<open>Validation\<close>

lemma validate_None_iff:
  "validate lib cfg = None \<longleftrightarrow>
     Name cfg \<noteq> [] \<and>
     1 \<le> sint (ExternalPort cfg) \<and> sint (ExternalPort cfg) \<le> 65535 \<and>
     1 \<le> sint (InternalPort cfg) \<and> sint (InternalPort cfg) \<le> 65535 \<and>
     0 \<le> sint (PortRange cfg) \<and> sint (PortRange cfg) \<le> 65535 \<and>
     (Protocol cfg = ProtocolTCP \<or> Protocol cfg = ProtocolUDP \<or> Protocol cfg = ProtocolTCPUDP) \<and>
     net_ParseIP lib (Destination cfg)"
  by (auto simp: validate_def)

lemma Upsert_invalid:
  "validate lib cfg = Some err \<Longrightarrow>
   UpsertPortForwarding lib c cfg = (Some (Wrapped ''validate configuration'' err), c)"
  by (simp add: UpsertPortForwarding_def)

lemma Upsert_valid:
  "validate lib cfg = None \<Longrightarrow>
   UpsertPortForwarding lib c cfg =
     (case doReq lib c (setPortForwardingPayload cfg) of
        (Inl err, c') \<Rightarrow> (Some (Wrapped ''do request'' err), c')
      | (Inr st, c') \<Rightarrow> (None, c'))"
  by (simp add: UpsertPortForwarding_def)

lemma Upsert_valid_not_validation_error:
  "validate lib cfg = None \<Longrightarrow>
   fst (UpsertPortForwarding lib c cfg) \<noteq> Some (Wrapped ''validate configuration'' err)"
  by (simp add: Upsert_valid split: prod.splits sum.splits)

text \<open>
  Claim C7. \<open>UpsertPortForwarding\<close> validates the configuration before anything else. The
  validation fails exactly when the name is empty, the external or the internal port is
  outside \<open>[1, 65535]\<close>, the range extent is outside \<open>[0, 65535]\<close>, the protocol is none of
  the three concrete values, or the destination does not parse as an IP address. When it
  fails, the upsert returns the validation error, wrapped as \<open>validate configuration\<close>,
  and the client as it was: no request has been issued. When it passes, the upsert never
  returns a validation error.
\<close>

theorem upsert_validates_first:
  "(validate lib cfg \<noteq> None \<longleftrightarrow>
      (Name cfg = [] \<or>
       sint (ExternalPort cfg) < 1 \<or> 65535 < sint (ExternalPort cfg) \<or>
       sint (InternalPort cfg) < 1 \<or> 65535 < sint (InternalPort cfg) \<or>
       sint (PortRange cfg) < 0 \<or> 65535 < sint (PortRange cfg) \<or>
       Protocol cfg \<notin> {ProtocolTCP, ProtocolUDP, ProtocolTCPUDP} \<or>
       \<not> net_ParseIP lib (Destination cfg))) \<and>
   (\<forall>err. validate lib cfg = Some err \<longrightarrow>
      UpsertPortForwarding lib c cfg = (Some (Wrapped ''validate configuration'' err), c)) \<and>
   (validate lib cfg = None \<longrightarrow>
      (\<forall>err. fst (UpsertPortForwarding lib c cfg) \<noteq> Some (Wrapped ''validate configuration'' err)))"
proof (intro conjI allI impI)
  show "validate lib cfg \<noteq> None \<longleftrightarrow>
      (Name cfg = [] \<or>
       sint (ExternalPort cfg) < 1 \<or> 65535 < sint (ExternalPort cfg) \<or>
       sint (InternalPort cfg) < 1 \<or> 65535 < sint (InternalPort cfg) \<or>
       sint (PortRange cfg) < 0 \<or> 65535 < sint (PortRange cfg) \<or>
       Protocol cfg \<notin> {ProtocolTCP, ProtocolUDP, ProtocolTCPUDP} \<or>
       \<not> net_ParseIP lib (Destination cfg))"
    unfolding validate_None_iff by auto
next
  fix err assume "validate lib cfg = Some err"
  then show "UpsertPortForwarding lib c cfg = (Some (Wrapped ''validate configuration'' err), c)"
    by (rule Upsert_invalid)
next
  fix err assume "validate lib cfg = None"
  then show "fst (UpsertPortForwarding lib c cfg) \<noteq> Some (Wrapped ''validate configuration'' err)"
    by (rule Upsert_valid_not_validation_error)
qed

theorem upsert_validates_first_witness:
  "validate sample_lib (wireguardConfig\<lparr>ExternalPort := 65536\<rparr>)
     = Some (ErrorString ''invalid external port; must be between 1 and 65535'') \<and>
   UpsertPortForwarding sample_lib (sample_client (answering 200 okBody))
       (wireguardConfig\<lparr>ExternalPort := 65536\<rparr>)
     = (Some (Wrapped ''validate configuration''
               (ErrorString ''invalid external port; must be between 1 and 65535'')),
        sample_client (answering 200 okBody)) \<and>
   validate sample_lib wireguardConfig = None \<and>
   fst (UpsertPortForwarding sample_lib (sample_client (answering 200 okBody)) wireguardConfig)
     \<noteq> Some (Wrapped ''validate configuration'' (ErrorString ''empty name''))"
proof -
  have bad: "validate sample_lib (wireguardConfig\<lparr>ExternalPort := 65536\<rparr>)
     = Some (ErrorString ''invalid external port; must be between 1 and 65535'')"
    by (simp add: validate_def wireguardConfig_def)
  have good: "validate sample_lib wireguardConfig = None"
    by (simp add: validate_def wireguardConfig_def sample_lib_def ProtocolTCP_def
        ProtocolUDP_def ProtocolTCPUDP_def)
  note t1 = upsert_validates_first
    [of sample_lib "wireguardConfig\<lparr>ExternalPort := 65536\<rparr>" "sample_client (answering 200 okBody)"]
  note t2 = upsert_validates_first
    [of sample_lib wireguardConfig "sample_client (answering 200 okBody)"]
  from t1 bad have u1: "UpsertPortForwarding sample_lib (sample_client (answering 200 okBody))
       (wireguardConfig\<lparr>ExternalPort := 65536\<rparr>)
     = (Some (Wrapped ''validate configuration''
               (ErrorString ''invalid external port; must be between 1 and 65535'')),
        sample_client (answering 200 okBody))"
    by simp
  from t2 good have u2:
    "fst (UpsertPortForwarding sample_lib (sample_client (answering 200 okBody)) wireguardConfig)
     \<noteq> Some (Wrapped ''validate configuration'' (ErrorString ''empty name''))"
    by simp
  from bad good u1 u2 show ?thesis by (intro conjI)
qed

text \<open>
  Claim C10. Validation bounds the external port and the range extent each on its own
  and never their sum: every configuration with the external port in \<open>[1, 65535]\<close>, the
  extent in \<open>[0, 65535]\<close> and the other fields valid passes. So external port 65535 with
  extent 2 is accepted, and the upsert sends the external-port parameter \<open>65535-65537\<close>,
  a range that ends beyond 65535: the request is issued with the envelope that carries it.
\<close>

theorem validation_ignores_range_end:
  assumes "Name cfg \<noteq> []"
    and "1 \<le> sint (InternalPort cfg)" and "sint (InternalPort cfg) \<le> 65535"
    and "Protocol cfg \<in> {ProtocolTCP, ProtocolUDP, ProtocolTCPUDP}"
    and "net_ParseIP lib (Destination cfg)"
  shows "(1 \<le> sint (ExternalPort cfg) \<and> sint (ExternalPort cfg) \<le> 65535 \<and>
          0 \<le> sint (PortRange cfg) \<and> sint (PortRange cfg) \<le> 65535 \<longrightarrow>
            validate lib cfg = None) \<and>
         validate lib (cfg\<lparr>ExternalPort := 65535, PortRange := 2\<rparr>) = None \<and>
         Parameters (setPortForwardingPayload (cfg\<lparr>ExternalPort := 65535, PortRange := 2\<rparr>))
           ''externalPort'' = Some (AString ''65535-65537'') \<and>
         UpsertPortForwarding lib c (cfg\<lparr>ExternalPort := 65535, PortRange := 2\<rparr>) =
           (case doReq lib c
                   (setPortForwardingPayload (cfg\<lparr>ExternalPort := 65535, PortRange := 2\<rparr>)) of
              (Inl err, c') \<Rightarrow> (Some (Wrapped ''do request'' err), c')
            | (Inr st, c') \<Rightarrow> (None, c')) \<and>
         (\<forall>b. json_Marshal lib
                 (setPortForwardingPayload (cfg\<lparr>ExternalPort := 65535, PortRange := 2\<rparr>)) = Inr b \<and>
               url_Parse lib (host c @ ''/ws'') = None \<longrightarrow>
            issued (httpClient
                     (snd (UpsertPortForwarding lib c (cfg\<lparr>ExternalPort := 65535, PortRange := 2\<rparr>))))
            = issued (httpClient c) @
                [\<lparr>req_Method = ''POST'', req_URL = host c @ ''/ws'',
                  req_Header = [''Authorization'' \<mapsto> [''X-Sah '' @ token c],
                                ''Content-Type'' \<mapsto> [''application/x-sah-ws-4-call+json'']],
                  req_Body = b\<rparr>])"
proof -
  let ?cfg = "cfg\<lparr>ExternalPort := 65535, PortRange := 2\<rparr>"
  have v: "validate lib ?cfg = None"
    using assms by (simp add: validate_None_iff)
  have g: "1 \<le> sint (ExternalPort cfg) \<and> sint (ExternalPort cfg) \<le> 65535 \<and>
          0 \<le> sint (PortRange cfg) \<and> sint (PortRange cfg) \<le> 65535 \<longrightarrow>
            validate lib cfg = None"
    using assms by (simp add: validate_None_iff)
  have f: "formatPortRange 65535 2 = ''65535-65537''"
    by (simp add: formatPortRange_def Itoa_def formatBits_small formatBits_large digit_def)
  have p: "Parameters (setPortForwardingPayload ?cfg) ''externalPort''
           = Some (AString ''65535-65537'')"
    by (simp add: setPortForwardingPayload_def f)
  have u: "UpsertPortForwarding lib c ?cfg =
           (case doReq lib c (setPortForwardingPayload ?cfg) of
              (Inl err, c') \<Rightarrow> (Some (Wrapped ''do request'' err), c')
            | (Inr st, c') \<Rightarrow> (None, c'))"
    using v by (rule Upsert_valid)
  have w: "issued (httpClient (snd (UpsertPortForwarding lib c ?cfg)))
            = issued (httpClient c) @
                [\<lparr>req_Method = ''POST'', req_URL = host c @ ''/ws'',
                  req_Header = [''Authorization'' \<mapsto> [''X-Sah '' @ token c],
                                ''Content-Type'' \<mapsto> [''application/x-sah-ws-4-call+json'']],
                  req_Body = b\<rparr>]"
    if "json_Marshal lib (setPortForwardingPayload ?cfg) = Inr b \<and>
        url_Parse lib (host c @ ''/ws'') = None" for b
  proof -
    from that have m: "json_Marshal lib (setPortForwardingPayload ?cfg) = Inr b"
      and r: "url_Parse lib (host c @ ''/ws'') = None" by simp_all
    show ?thesis
      by (simp add: u doReq_issue [OF m r] Let_def split: sum.splits)
  qed
  from g v p u w show ?thesis by (intro conjI allI impI) auto
qed

theorem validation_ignores_range_end_witness:
  "Name wireguardConfig \<noteq> [] \<and>
   1 \<le> sint (InternalPort wireguardConfig) \<and> sint (InternalPort wireguardConfig) \<le> 65535 \<and>
   Protocol wireguardConfig \<in> {ProtocolTCP, ProtocolUDP, ProtocolTCPUDP} \<and>
   net_ParseIP sample_lib (Destination wireguardConfig) \<and>
   validate sample_lib (wireguardConfig\<lparr>ExternalPort := 65535, PortRange := 2\<rparr>) = None \<and>
   Parameters (setPortForwardingPayload (wireguardConfig\<lparr>ExternalPort := 65535, PortRange := 2\<rparr>))
     ''externalPort'' = Some (AString ''65535-65537'') \<and>
   issued (httpClient
            (snd (UpsertPortForwarding sample_lib (sample_client (answering 200 okBody))
                    (wireguardConfig\<lparr>ExternalPort := 65535, PortRange := 2\<rparr>))))
     = [\<lparr>req_Method = ''POST'', req_URL = ''https://192.168.1.1/ws'',
         req_Header = [''Authorization'' \<mapsto> [''X-Sah Zm9vYmFy''],
                       ''Content-Type'' \<mapsto> [''application/x-sah-ws-4-call+json'']],
         req_Body = ''Firewall.setPortForwarding''\<rparr>]"
proof -
  have h1: "Name wireguardConfig \<noteq> []" by (simp add: wireguardConfig_def)
  have h2: "1 \<le> sint (InternalPort wireguardConfig)" by (simp add: wireguardConfig_def)
  have h3: "sint (InternalPort wireguardConfig) \<le> 65535" by (simp add: wireguardConfig_def)
  have h4: "Protocol wireguardConfig \<in> {ProtocolTCP, ProtocolUDP, ProtocolTCPUDP}"
    by (simp add: wireguardConfig_def ProtocolUDP_def)
  have h5: "net_ParseIP sample_lib (Destination wireguardConfig)"
    by (simp add: wireguardConfig_def sample_lib_def)
  note t = validation_ignores_range_end
    [OF h1 h2 h3 h4 h5, of "sample_client (answering 200 okBody)"]
  from t have v: "validate sample_lib (wireguardConfig\<lparr>ExternalPort := 65535, PortRange := 2\<rparr>) = None"
    by (elim conjE)
  from t have p:
    "Parameters (setPortForwardingPayload (wireguardConfig\<lparr>ExternalPort := 65535, PortRange := 2\<rparr>))
       ''externalPort'' = Some (AString ''65535-65537'')"
    by (elim conjE)
  have m: "json_Marshal sample_lib
             (setPortForwardingPayload (wireguardConfig\<lparr>ExternalPort := 65535, PortRange := 2\<rparr>))
           = Inr ''Firewall.setPortForwarding'' \<and>
           url_Parse sample_lib (host (sample_client (answering 200 okBody)) @ ''/ws'') = None"
    by (simp add: sample_lib_def setPortForwardingPayload_def)
  from t have "\<forall>b. json_Marshal sample_lib
                 (setPortForwardingPayload (wireguardConfig\<lparr>ExternalPort := 65535, PortRange := 2\<rparr>)) = Inr b \<and>
               url_Parse sample_lib (host (sample_client (answering 200 okBody)) @ ''/ws'') = None \<longrightarrow>
            issued (httpClient
                     (snd (UpsertPortForwarding sample_lib (sample_client (answering 200 okBody))
                       (wireguardConfig\<lparr>ExternalPort := 65535, PortRange := 2\<rparr>))))
            = issued (httpClient (sample_client (answering 200 okBody))) @
                [\<lparr>req_Method = ''POST'', req_URL = host (sample_client (answering 200 okBody)) @ ''/ws'',
                  req_Header = [''Authorization'' \<mapsto> [''X-Sah '' @ token (sample_client (answering 200 okBody))],
                                ''Content-Type'' \<mapsto> [''application/x-sah-ws-4-call+json'']],
                  req_Body = b\<rparr>]"
    by (elim conjE)
  with m have w: "issued (httpClient
                     (snd (UpsertPortForwarding sample_lib (sample_client (answering 200 okBody))
                       (wireguardConfig\<lparr>ExternalPort := 65535, PortRange := 2\<rparr>))))
            = issued (httpClient (sample_client (answering 200 okBody))) @
                [\<lparr>req_Method = ''POST'', req_URL = host (sample_client (answering 200 okBody)) @ ''/ws'',
                  req_Header = [''Authorization'' \<mapsto> [''X-Sah '' @ token (sample_client (answering 200 okBody))],
                                ''Content-Type'' \<mapsto> [''application/x-sah-ws-4-call+json'']],
                  req_Body = ''Firewall.setPortForwarding''\<rparr>]"
    by (elim allE impE) assumption+
  have w': "issued (httpClient
                     (snd (UpsertPortForwarding sample_lib (sample_client (answering 200 okBody))
                       (wireguardConfig\<lparr>ExternalPort := 65535, PortRange := 2\<rparr>))))
     = [\<lparr>req_Method = ''POST'', req_URL = ''https://192.168.1.1/ws'',
         req_Header = [''Authorization'' \<mapsto> [''X-Sah Zm9vYmFy''],
                       ''Content-Type'' \<mapsto> [''application/x-sah-ws-4-call+json'']],
         req_Body = ''Firewall.setPortForwarding''\<rparr>]"
    unfolding w by (simp add: sample_client_def answering_def)
  from h1 h2 h3 h4 h5 v p w' show ?thesis by (intro conjI)
qed

subsection \<open>What the adapter writes back\<close>

text \<open>
  Claim C8. \<open>UpsertPortForwarding\<close> itself returns only its error; the record comes from
  its callers \<open>Create\<close> and \<open>Update\<close>. Whenever the upsert of the configuration read from
  the plan succeeds, the configuration is valid and the state written is the record
  whose attributes are the fields of that configuration, copied back as they are; for a
  plan whose attributes are all known, the state is the plan itself.
\<close>

theorem upsert_copies_config_back:
  assumes "cfg = \<lparr>Name = ValueString (m_Name plan),
                   ExternalPort = ValueInt64 (m_ExternalPort plan),
                   InternalPort = ValueInt64 (m_InternalPort plan),
                   PortRange = ValueInt64 (m_PortRange plan),
                   Protocol = ValueString (m_Protocol plan),
                   Destination = ValueString (m_Destination plan),
                   Enabled = ValueBool (m_Enabled plan)\<rparr>"
    and "fst (UpsertPortForwarding lib c cfg) = None"
  shows "validate lib cfg = None \<and>
         fst (Create lib c plan) =
           Inr \<lparr>m_Name = Known (Name cfg), m_Protocol = Known (Protocol cfg),
                m_ExternalPort = Known (ExternalPort cfg),
                m_InternalPort = Known (InternalPort cfg),
                m_PortRange = Known (PortRange cfg),
                m_Destination = Known (Destination cfg),
                m_Enabled = Known (Enabled cfg)\<rparr> \<and>
         fst (Update lib c plan) = fst (Create lib c plan) \<and>
         (plan = \<lparr>m_Name = Known (Name cfg), m_Protocol = Known (Protocol cfg),
                  m_ExternalPort = Known (ExternalPort cfg),
                  m_InternalPort = Known (InternalPort cfg),
                  m_PortRange = Known (PortRange cfg),
                  m_Destination = Known (Destination cfg),
                  m_Enabled = Known (Enabled cfg)\<rparr> \<longrightarrow>
            fst (Create lib c plan) = Inr plan)"
proof -
  have v: "validate lib cfg = None"
  proof (cases "validate lib cfg")
    case None
    then show ?thesis .
  next
    case (Some err)
    with assms(2) show ?thesis by (simp add: Upsert_invalid)
  qed
  obtain c' where u: "UpsertPortForwarding lib c cfg = (None, c')"
    using assms(2) by (cases "UpsertPortForwarding lib c cfg") auto
  have cr: "fst (Create lib c plan) =
           Inr \<lparr>m_Name = Known (Name cfg), m_Protocol = Known (Protocol cfg),
                m_ExternalPort = Known (ExternalPort cfg),
                m_InternalPort = Known (InternalPort cfg),
                m_PortRange = Known (PortRange cfg),
                m_Destination = Known (Destination cfg),
                m_Enabled = Known (Enabled cfg)\<rparr>"
    using u unfolding assms(1) by (cases plan) (simp add: Create_def)
  have up: "fst (Update lib c plan) = fst (Create lib c plan)"
    using u unfolding assms(1) by (simp add: Create_def Update_def)
  have same: "plan = \<lparr>m_Name = Known (Name cfg), m_Protocol = Known (Protocol cfg),
                  m_ExternalPort = Known (ExternalPort cfg),
                  m_InternalPort = Known (InternalPort cfg),
                  m_PortRange = Known (PortRange cfg),
                  m_Destination = Known (Destination cfg),
                  m_Enabled = Known (Enabled cfg)\<rparr> \<longrightarrow>
            fst (Create lib c plan) = Inr plan"
  proof
    assume p: "plan = \<lparr>m_Name = Known (Name cfg), m_Protocol = Known (Protocol cfg),
                  m_ExternalPort = Known (ExternalPort cfg),
                  m_InternalPort = Known (InternalPort cfg),
                  m_PortRange = Known (PortRange cfg),
                  m_Destination = Known (Destination cfg),
                  m_Enabled = Known (Enabled cfg)\<rparr>"
    show "fst (Create lib c plan) = Inr plan"
      by (subst (2) p) (rule cr)
  qed
  from v cr up same show ?thesis by (intro conjI)
qed

lemma sample_upsert_succeeds:
  "fst (UpsertPortForwarding sample_lib (sample_client (answering 200 okBody)) wireguardConfig)
     = None"
proof -
  have v: "validate sample_lib wireguardConfig = None"
    by (simp add: validate_def wireguardConfig_def sample_lib_def ProtocolTCP_def
        ProtocolUDP_def ProtocolTCPUDP_def)
  have m: "json_Marshal sample_lib (setPortForwardingPayload wireguardConfig)
           = Inr ''Firewall.setPortForwarding''"
    by (simp add: sample_lib_def setPortForwardingPayload_def)
  have u: "url_Parse sample_lib (host (sample_client (answering 200 okBody)) @ ''/ws'') = None"
    by (simp add: sample_lib_def)
  have a: "answer (httpClient (sample_client (answering 200 okBody)))
             (issued (httpClient (sample_client (answering 200 okBody)))) req
           = Inr \<lparr>StatusCode = 200, resp_Header = Map.empty, resp_Body = okBody\<rparr>" for req
    by (simp add: sample_client_def answering_def)
  have d: "decode_apiResponse sample_lib
             (resp_Body \<lparr>StatusCode = 200, resp_Header = Map.empty, resp_Body = okBody\<rparr>)
           = Inr \<lparr>Status = ''true'', Errors = []\<rparr>"
    by (simp add: sample_lib_def okBody_def errorBody_def)
  have "fst (doReq sample_lib (sample_client (answering 200 okBody))
               (setPortForwardingPayload wireguardConfig)) = Inr ''true''"
    using doReq_decoded [OF m u a d] by simp
  then show ?thesis
    by (cases "doReq sample_lib (sample_client (answering 200 okBody))
                 (setPortForwardingPayload wireguardConfig)")
       (simp add: Upsert_valid [OF v])
qed

theorem upsert_copies_config_back_witness:
  "fst (UpsertPortForwarding sample_lib (sample_client (answering 200 okBody)) wireguardConfig)
     = None \<and>
   validate sample_lib wireguardConfig = None \<and>
   fst (Create sample_lib (sample_client (answering 200 okBody)) wireguardPlan)
     = Inr wireguardPlan \<and>
   fst (Update sample_lib (sample_client (answering 200 okBody)) wireguardPlan)
     = Inr wireguardPlan"
proof -
  have c: "wireguardConfig =
     \<lparr>Name = ValueString (m_Name wireguardPlan),
      ExternalPort = ValueInt64 (m_ExternalPort wireguardPlan),
      InternalPort = ValueInt64 (m_InternalPort wireguardPlan),
      PortRange = ValueInt64 (m_PortRange wireguardPlan),
      Protocol = ValueString (m_Protocol wireguardPlan),
      Destination = ValueString (m_Destination wireguardPlan),
      Enabled = ValueBool (m_Enabled wireguardPlan)\<rparr>"
    by (simp add: wireguardConfig_def wireguardPlan_def ValueString_def ValueInt64_def
        ValueBool_def)
  have p: "wireguardPlan =
     \<lparr>m_Name = Known (Name wireguardConfig), m_Protocol = Known (Protocol wireguardConfig),
      m_ExternalPort = Known (ExternalPort wireguardConfig),
      m_InternalPort = Known (InternalPort wireguardConfig),
      m_PortRange = Known (PortRange wireguardConfig),
      m_Destination = Known (Destination wireguardConfig),
      m_Enabled = Known (Enabled wireguardConfig)\<rparr>"
    by (simp add: wireguardConfig_def wireguardPlan_def)
  note t = upsert_copies_config_back [OF c sample_upsert_succeeds]
  from t have v: "validate sample_lib wireguardConfig = None" by (elim conjE)
  from t p have cr: "fst (Create sample_lib (sample_client (answering 200 okBody)) wireguardPlan)
     = Inr wireguardPlan"
    by (elim conjE impE)
  from t have "fst (Update sample_lib (sample_client (answering 200 okBody)) wireguardPlan)
     = fst (Create sample_lib (sample_client (answering 200 okBody)) wireguardPlan)"
    by (elim conjE)
  with cr have up: "fst (Update sample_lib (sample_client (answering 200 okBody)) wireguardPlan)
     = Inr wireguardPlan"
    by simp
  from sample_upsert_succeeds v cr up show ?thesis by (intro conjI)
qed

subsection \<open>Listing the rules\<close>

lemma Atoi_empty: "isl (Atoi [])"
  by (simp add: Atoi_def)

lemma parseUint_bad_char:
  "ch \<in> set ds \<Longrightarrow> \<not> isDigit ch \<Longrightarrow> isl (parseUint n ds)"
  by (induction ds arbitrary: n) auto

lemma Atoi_bad_char:
  assumes "ch \<in> set s" and "\<not> isDigit ch" and "ch \<noteq> CHR ''-''" and "ch \<noteq> CHR ''+''"
  shows "isl (Atoi s)"
proof -
  from assms(1) obtain a r where s: "s = a # r" by (cases s) auto
  let ?ds = "if s \<noteq> [] \<and> (hd s = CHR ''-'' \<or> hd s = CHR ''+'') then tl s else s"
  from assms s have "ch \<in> set ?ds" by auto
  then have "isl (parseUint 0 ?ds)" using assms(2) by (rule parseUint_bad_char)
  then obtain reason where "parseUint 0 ?ds = Inl reason"
    by (cases "parseUint 0 ?ds") simp_all
  then show ?thesis by (simp add: Atoi_def Let_def)
qed

lemma dropWhile_sep:
  "sep \<in> set s \<Longrightarrow>
   s = takeWhile (\<lambda>c. c \<noteq> sep) s @ sep # tl (dropWhile (\<lambda>c. c \<noteq> sep) s)"
  by (induction s) auto

lemma parsePortRange_empty: "isl (parsePortRange [])"
  by (simp add: parsePortRange_def SplitN2_def Atoi_def)

lemma parsePortRange_bad_char:
  assumes "ch \<in> set s" and "\<not> isDigit ch" and "ch \<noteq> CHR ''-''" and "ch \<noteq> CHR ''+''"
  shows "isl (parsePortRange s)"
proof (cases "CHR ''-'' \<in> set s")
  case False
  then have sp: "SplitN2 s CHR ''-'' = [s]" by (rule SplitN2_single)
  from assms have "isl (Atoi s)" by (rule Atoi_bad_char)
  then obtain err where "Atoi s = Inl err" by (cases "Atoi s") simp_all
  then show ?thesis by (simp add: parsePortRange_def sp)
next
  case True
  let ?a = "takeWhile (\<lambda>c. c \<noteq> CHR ''-'') s"
  let ?b = "tl (dropWhile (\<lambda>c. c \<noteq> CHR ''-'') s)"
  from True have sp: "SplitN2 s CHR ''-'' = [?a, ?b]" by (simp add: SplitN2_def)
  from True have "s = ?a @ CHR ''-'' # ?b" by (rule dropWhile_sep)
  then have "set s = set (?a @ CHR ''-'' # ?b)" by (rule arg_cong)
  with assms(1,3) have "ch \<in> set ?a \<or> ch \<in> set ?b" by (simp only: set_append set_simps) blast
  then have bad: "isl (Atoi ?a) \<or> isl (Atoi ?b)"
    using assms(2,3,4) by (blast intro: Atoi_bad_char)
  show ?thesis
  proof (cases "Atoi ?a")
    case (Inl err)
    then show ?thesis by (simp add: parsePortRange_def sp)
  next
    case (Inr v)
    with bad obtain err where "Atoi ?b = Inl err" by (cases "Atoi ?b") simp_all
    with Inr show ?thesis by (simp add: parsePortRange_def sp)
  qed
qed

text \<open>
  The loop appends one record per entry, in the order of the entries, and stops at the
  first entry whose external port or internal port does not parse.
\<close>

lemma listLoop_Inr:
  "listLoop pfr acc = Inr out \<Longrightarrow>
   \<exists>new. out = acc @ new \<and>
     list_all2
       (\<lambda>(ident, raw) pf.
          pf_Name pf = TrimPrefix ident ''webui_'' \<and>
          pf_Protocol pf = parseProtocol (raw_Protocol raw) \<and>
          parsePortRange (raw_ExternalPort raw) = Inr (pf_ExternalPort pf, pf_PortRange pf) \<and>
          Atoi (raw_InternalPort raw) = Inr (pf_InternalPort pf) \<and>
          pf_Destination pf = raw_DestinationIPAddress raw \<and>
          pf_Enabled pf = raw_Enable raw)
       pfr new"
proof (induction pfr arbitrary: acc)
  case Nil
  then show ?case by simp
next
  case (Cons e rest)
  obtain ident raw where e: "e = (ident, raw)" by (cases e)
  from Cons.prems e obtain externalPort portRange internalPort where
    p: "parsePortRange (raw_ExternalPort raw) = Inr (externalPort, portRange)" and
    i: "Atoi (raw_InternalPort raw) = Inr internalPort" and
    r: "listLoop rest
          (acc @ [\<lparr>pf_Name = TrimPrefix ident ''webui_'',
                   pf_Protocol = parseProtocol (raw_Protocol raw),
                   pf_ExternalPort = externalPort,
                   pf_InternalPort = internalPort,
                   pf_PortRange = portRange,
                   pf_Destination = raw_DestinationIPAddress raw,
                   pf_Enabled = raw_Enable raw\<rparr>]) = Inr out"
    by (auto split: sum.splits prod.splits)
  from Cons.IH [OF r] obtain new where
    n: "out = (acc @ [\<lparr>pf_Name = TrimPrefix ident ''webui_'',
                   pf_Protocol = parseProtocol (raw_Protocol raw),
                   pf_ExternalPort = externalPort,
                   pf_InternalPort = internalPort,
                   pf_PortRange = portRange,
                   pf_Destination = raw_DestinationIPAddress raw,
                   pf_Enabled = raw_Enable raw\<rparr>]) @ new" and
    l: "list_all2
       (\<lambda>(ident, raw) pf.
          pf_Name pf = TrimPrefix ident ''webui_'' \<and>
          pf_Protocol pf = parseProtocol (raw_Protocol raw) \<and>
          parsePortRange (raw_ExternalPort raw) = Inr (pf_ExternalPort pf, pf_PortRange pf) \<and>
          Atoi (raw_InternalPort raw) = Inr (pf_InternalPort pf) \<and>
          pf_Destination pf = raw_DestinationIPAddress raw \<and>
          pf_Enabled pf = raw_Enable raw)
       rest new"
    by blast
  show ?case
    by (rule exI [of _ "\<lparr>pf_Name = TrimPrefix ident ''webui_'',
                   pf_Protocol = parseProtocol (raw_Protocol raw),
                   pf_ExternalPort = externalPort,
                   pf_InternalPort = internalPort,
                   pf_PortRange = portRange,
                   pf_Destination = raw_DestinationIPAddress raw,
                   pf_Enabled = raw_Enable raw\<rparr> # new"])
       (simp add: n l e p i)
qed

lemma listLoop_fails:
  "e \<in> set pfr \<Longrightarrow>
   isl (parsePortRange (raw_ExternalPort (snd e))) \<or> isl (Atoi (raw_InternalPort (snd e))) \<Longrightarrow>
   \<exists>err. listLoop pfr acc = Inl (Wrapped ''parse port range'' err) \<or>
         listLoop pfr acc = Inl (Wrapped ''parse internal port'' err)"
proof (induction pfr arbitrary: acc)
  case Nil
  then show ?case by simp
next
  case (Cons x rest)
  obtain ident raw where x: "x = (ident, raw)" by (cases x)
  show ?case
  proof (cases "parsePortRange (raw_ExternalPort raw)")
    case (Inl err)
    with x show ?thesis by simp
  next
    case (Inr pr)
    obtain externalPort portRange where pr: "pr = (externalPort, portRange)" by (cases pr)
    show ?thesis
    proof (cases "Atoi (raw_InternalPort raw)")
      case (Inl err)
      with Inr pr x show ?thesis by simp
    next
      case inner: (Inr internalPort)
      from Cons.prems Inr inner x have "e \<in> set rest" by auto
      from Cons.IH [OF this Cons.prems(2)] Inr inner pr x show ?thesis by simp
    qed
  qed
qed

lemma listLoop_returns:
  "\<forall>e \<in> set pfr. \<not> isl (parsePortRange (raw_ExternalPort (snd e))) \<and>
                  \<not> isl (Atoi (raw_InternalPort (snd e))) \<Longrightarrow>
   \<exists>out. listLoop pfr acc = Inr out"
proof (induction pfr arbitrary: acc)
  case Nil
  then show ?case by simp
next
  case (Cons x rest)
  obtain ident raw where x: "x = (ident, raw)" by (cases x)
  from Cons.prems x obtain externalPort portRange internalPort where
    "parsePortRange (raw_ExternalPort raw) = Inr (externalPort, portRange)"
    "Atoi (raw_InternalPort raw) = Inr internalPort"
    by (cases "parsePortRange (raw_ExternalPort raw)"; cases "Atoi (raw_InternalPort raw)") auto
  moreover from Cons.prems have
    "\<forall>e \<in> set rest. \<not> isl (parsePortRange (raw_ExternalPort (snd e))) \<and>
                  \<not> isl (Atoi (raw_InternalPort (snd e)))" by simp
  ultimately show ?case using Cons.IH x by simp
qed

lemma ListPortForwardings_decoded:
  assumes "doReq lib c \<lparr>Method = ''getPortForwarding'', Service = ''Firewall'',
                        Parameters = [''origin'' \<mapsto> AString ''webui'']\<rparr> = (Inr data, c')"
    and "Unmarshal_getPortForwarding lib data = Inr pfr"
  shows "ListPortForwardings lib c = (listLoop pfr [], c')"
  using assms by (simp add: ListPortForwardings_def)

text \<open>
  Claim C9. Given the wire mapping the router returned, \<open>ListPortForwardings\<close> returns
  one record per entry, in the order the entries are visited: its name is the identifier
  without the prefix \<open>webui_\<close>, its protocol the decoded protocol, its external port and
  range extent what \<open>parsePortRange\<close> gives for the external-port field, its internal port
  what \<open>Atoi\<close> gives for the internal-port field, destination and enabled flag copied. If
  the external-port or the internal-port field of any entry does not parse, the whole
  call fails with the error of the loop (\<open>parse port range\<close> or \<open>parse internal port\<close>)
  and no record is skipped; if all entries parse, the call returns. A field that is empty
  or holds a character that is neither a digit nor a sign never parses. The mapping with
  the one entry \<open>webui_wireguard\<close> (protocol \<open>17\<close>, external and internal port \<open>51820\<close>)
  gives exactly one record: name \<open>wireguard\<close>, protocol UDP, external port 51820, range
  extent 0.
\<close>

theorem list_decodes_or_fails:
  assumes "doReq lib c \<lparr>Method = ''getPortForwarding'', Service = ''Firewall'',
                        Parameters = [''origin'' \<mapsto> AString ''webui'']\<rparr> = (Inr data, c')"
    and "Unmarshal_getPortForwarding lib data = Inr pfr"
  shows
    "(\<forall>out. fst (ListPortForwardings lib c) = Inr out \<longrightarrow>
        list_all2
          (\<lambda>(ident, raw) pf.
             pf_Name pf = TrimPrefix ident ''webui_'' \<and>
             pf_Protocol pf = parseProtocol (raw_Protocol raw) \<and>
             parsePortRange (raw_ExternalPort raw) = Inr (pf_ExternalPort pf, pf_PortRange pf) \<and>
             Atoi (raw_InternalPort raw) = Inr (pf_InternalPort pf) \<and>
             pf_Destination pf = raw_DestinationIPAddress raw \<and>
             pf_Enabled pf = raw_Enable raw)
          pfr out) \<and>
     ((\<exists>e \<in> set pfr. isl (parsePortRange (raw_ExternalPort (snd e))) \<or>
                      isl (Atoi (raw_InternalPort (snd e)))) \<longrightarrow>
        (\<exists>err. fst (ListPortForwardings lib c) = Inl (Wrapped ''parse port range'' err) \<or>
               fst (ListPortForwardings lib c) = Inl (Wrapped ''parse internal port'' err))) \<and>
     ((\<forall>e \<in> set pfr. \<not> isl (parsePortRange (raw_ExternalPort (snd e))) \<and>
                      \<not> isl (Atoi (raw_InternalPort (snd e)))) \<longrightarrow>
        (\<exists>out. fst (ListPortForwardings lib c) = Inr out)) \<and>
     (\<forall>s. s = [] \<or> (\<exists>ch \<in> set s. \<not> isDigit ch \<and> ch \<noteq> CHR ''-'' \<and> ch \<noteq> CHR ''+'') \<longrightarrow>
        isl (Atoi s) \<and> isl (parsePortRange s)) \<and>
     (\<forall>raw. pfr = [(''webui_wireguard'', raw)] \<and> raw_Protocol raw = ''17'' \<and>
            raw_ExternalPort raw = ''51820'' \<and> raw_InternalPort raw = ''51820'' \<and>
            raw_DestinationIPAddress raw = ''192.168.10.200'' \<and> raw_Enable raw \<longrightarrow>
        fst (ListPortForwardings lib c) =
          Inr [\<lparr>pf_Name = ''wireguard'', pf_Protocol = ProtocolUDP, pf_ExternalPort = 51820,
                pf_InternalPort = 51820, pf_PortRange = 0,
                pf_Destination = ''192.168.10.200'', pf_Enabled = True\<rparr>])"
proof -
  have l: "fst (ListPortForwardings lib c) = listLoop pfr []"
    by (simp add: ListPortForwardings_decoded [OF assms])
  have a: "list_all2
          (\<lambda>(ident, raw) pf.
             pf_Name pf = TrimPrefix ident ''webui_'' \<and>
             pf_Protocol pf = parseProtocol (raw_Protocol raw) \<and>
             parsePortRange (raw_ExternalPort raw) = Inr (pf_ExternalPort pf, pf_PortRange pf) \<and>
             Atoi (raw_InternalPort raw) = Inr (pf_InternalPort pf) \<and>
             pf_Destination pf = raw_DestinationIPAddress raw \<and>
             pf_Enabled pf = raw_Enable raw)
          pfr out" if "fst (ListPortForwardings lib c) = Inr out" for out
  proof -
    from that l have "listLoop pfr [] = Inr out" by simp
    from listLoop_Inr [OF this] show ?thesis by simp
  qed
  have b: "\<exists>err. fst (ListPortForwardings lib c) = Inl (Wrapped ''parse port range'' err) \<or>
               fst (ListPortForwardings lib c) = Inl (Wrapped ''parse internal port'' err)"
    if "\<exists>e \<in> set pfr. isl (parsePortRange (raw_ExternalPort (snd e))) \<or>
                      isl (Atoi (raw_InternalPort (snd e)))"
  proof -
    from that obtain e where "e \<in> set pfr"
      "isl (parsePortRange (raw_ExternalPort (snd e))) \<or> isl (Atoi (raw_InternalPort (snd e)))"
      by blast
    from listLoop_fails [OF this] show ?thesis unfolding l .
  qed
  have r: "\<exists>out. fst (ListPortForwardings lib c) = Inr out"
    if "\<forall>e \<in> set pfr. \<not> isl (parsePortRange (raw_ExternalPort (snd e))) \<and>
                      \<not> isl (Atoi (raw_InternalPort (snd e)))"
    using listLoop_returns [OF that] unfolding l .
  have n: "isl (Atoi s) \<and> isl (parsePortRange s)"
    if "s = [] \<or> (\<exists>ch \<in> set s. \<not> isDigit ch \<and> ch \<noteq> CHR ''-'' \<and> ch \<noteq> CHR ''+'')" for s
    using that Atoi_empty parsePortRange_empty
    by (blast intro: Atoi_bad_char parsePortRange_bad_char)
  have w: "fst (ListPortForwardings lib c) =
          Inr [\<lparr>pf_Name = ''wireguard'', pf_Protocol = ProtocolUDP, pf_ExternalPort = 51820,
                pf_InternalPort = 51820, pf_PortRange = 0,
                pf_Destination = ''192.168.10.200'', pf_Enabled = True\<rparr>]"
    if "pfr = [(''webui_wireguard'', raw)] \<and> raw_Protocol raw = ''17'' \<and>
            raw_ExternalPort raw = ''51820'' \<and> raw_InternalPort raw = ''51820'' \<and>
            raw_DestinationIPAddress raw = ''192.168.10.200'' \<and> raw_Enable raw" for raw
  proof -
    have p: "parsePortRange ''51820'' = Inr (51820, 0)"
      by (simp add: parsePortRange_def SplitN2_def Atoi_def isDigit_def digitVal_def)
    have i: "Atoi ''51820'' = Inr 51820"
      by (simp add: Atoi_def isDigit_def digitVal_def)
    have t: "TrimPrefix ''webui_wireguard'' ''webui_'' = ''wireguard''"
      by (simp add: TrimPrefix_def)
    have q: "parseProtocol ''17'' = ProtocolUDP"
      by (simp add: parseProtocol_def)
    from that show ?thesis by (simp add: l p i t q)
  qed
  from a b r n w show ?thesis by (intro conjI allI impI) blast+
qed

theorem list_decodes_or_fails_witness:
  "fst (doReq sample_lib (sample_client (answering 200 rulesBody))
          \<lparr>Method = ''getPortForwarding'', Service = ''Firewall'',
           Parameters = [''origin'' \<mapsto> AString ''webui'']\<rparr>) = Inr rulesStatus \<and>
   Unmarshal_getPortForwarding sample_lib rulesStatus = Inr [(''webui_wireguard'', wireguardRaw)] \<and>
   fst (ListPortForwardings sample_lib (sample_client (answering 200 rulesBody))) =
     Inr [\<lparr>pf_Name = ''wireguard'', pf_Protocol = ProtocolUDP, pf_ExternalPort = 51820,
           pf_InternalPort = 51820, pf_PortRange = 0,
           pf_Destination = ''192.168.10.200'', pf_Enabled = True\<rparr>] \<and>
   isl (Atoi ''http'') \<and> isl (parsePortRange ''80-http'')"
proof -
  let ?c = "sample_client (answering 200 rulesBody)"
  let ?r = "\<lparr>Method = ''getPortForwarding'', Service = ''Firewall'',
             Parameters = [''origin'' \<mapsto> AString ''webui'']\<rparr>"
  have m: "json_Marshal sample_lib ?r = Inr ''Firewall.getPortForwarding''"
    by (simp add: sample_lib_def)
  have u: "url_Parse sample_lib (host ?c @ ''/ws'') = None"
    by (simp add: sample_lib_def)
  have a: "answer (httpClient ?c) (issued (httpClient ?c)) req
           = Inr \<lparr>StatusCode = 200, resp_Header = Map.empty, resp_Body = rulesBody\<rparr>" for req
    by (simp add: sample_client_def answering_def)
  have d: "decode_apiResponse sample_lib
             (resp_Body \<lparr>StatusCode = 200, resp_Header = Map.empty, resp_Body = rulesBody\<rparr>)
           = Inr \<lparr>Status = rulesStatus, Errors = []\<rparr>"
    by (simp add: sample_lib_def okBody_def errorBody_def rulesBody_def)
  have f: "fst (doReq sample_lib ?c ?r) = Inr rulesStatus"
    using doReq_decoded [OF m u a d] by simp
  then have h1: "doReq sample_lib ?c ?r = (Inr rulesStatus, snd (doReq sample_lib ?c ?r))"
    by (cases "doReq sample_lib ?c ?r") simp
  have h2: "Unmarshal_getPortForwarding sample_lib rulesStatus
            = Inr [(''webui_wireguard'', wireguardRaw)]"
    by (simp add: sample_lib_def)
  note t = list_decodes_or_fails [OF h1 h2]
  from t have "\<forall>raw. [(''webui_wireguard'', wireguardRaw)] = [(''webui_wireguard'', raw)] \<and>
            raw_Protocol raw = ''17'' \<and>
            raw_ExternalPort raw = ''51820'' \<and> raw_InternalPort raw = ''51820'' \<and>
            raw_DestinationIPAddress raw = ''192.168.10.200'' \<and> raw_Enable raw \<longrightarrow>
        fst (ListPortForwardings sample_lib ?c) =
          Inr [\<lparr>pf_Name = ''wireguard'', pf_Protocol = ProtocolUDP, pf_ExternalPort = 51820,
                pf_InternalPort = 51820, pf_PortRange = 0,
                pf_Destination = ''192.168.10.200'', pf_Enabled = True\<rparr>]"
    by (elim conjE)
  then have w: "fst (ListPortForwardings sample_lib ?c) =
          Inr [\<lparr>pf_Name = ''wireguard'', pf_Protocol = ProtocolUDP, pf_ExternalPort = 51820,
                pf_InternalPort = 51820, pf_PortRange = 0,
                pf_Destination = ''192.168.10.200'', pf_Enabled = True\<rparr>]"
    by (simp add: wireguardRaw_def)
  from t have n: "\<forall>s. s = [] \<or> (\<exists>ch \<in> set s. \<not> isDigit ch \<and> ch \<noteq> CHR ''-'' \<and> ch \<noteq> CHR ''+'') \<longrightarrow>
        isl (Atoi s) \<and> isl (parsePortRange s)"
    by (elim conjE)
  have "\<exists>ch \<in> set ''http''. \<not> isDigit ch \<and> ch \<noteq> CHR ''-'' \<and> ch \<noteq> CHR ''+''"
    by (simp add: isDigit_def)
  with n have n1: "isl (Atoi ''http'')" by blast
  have "\<exists>ch \<in> set ''80-http''. \<not> isDigit ch \<and> ch \<noteq> CHR ''-'' \<and> ch \<noteq> CHR ''+''"
    by (simp add: isDigit_def)
  with n have n2: "isl (parsePortRange ''80-http'')" by blast
  from f h2 w n1 n2 show ?thesis by (intro conjI)
qed

end
